theory Spec2Isabelle
  imports Complex_Main "HOL-Library.Sublist"
begin

section \<open>Data model: the table of recording events\<close>

text \<open>
  The script \<^verbatim>\<open>stratifiedRandomSampler.py\<close> works on a pandas DataFrame read from a
  CSV file. Four columns are read by the code; every other column is carried along.

  \<^item> \<^verbatim>\<open>AudioMothCode\<close>: the device identifier, a string, or missing (NaN);
  \<^item> \<^verbatim>\<open>Error\<close>: the error marker, or missing (NaN) for a good recording;
  \<^item> \<^verbatim>\<open>Duration\<close>: the length in seconds, a number, or missing (NaN);
  \<^item> \<^verbatim>\<open>StartDateTime\<close>: text as read from the CSV, or missing. After
    \<^verbatim>\<open>pandas.to_datetime(..., errors='coerce')\<close> the column is a timestamp column
    (\<^verbatim>\<open>datetime64\<close>, every cell a timestamp or NaT), or it is still an object column,
    whose cells are Python datetime objects or NaT.

  A timestamp is a wall-clock time, in seconds since the epoch; its hour of day is what
  \<^verbatim>\<open>.dt.hour\<close> reads. A date text may carry a UTC offset (in seconds); without one the time
  is naive. A datetime object is a wall-clock time with the offset of its text.
\<close>

type_synonym timestamp = int

type_synonym utc_offset = "int option"

datatype start_cell = Text string | Stamp timestamp | NaT | DatetimeObj timestamp utc_offset

record row =
  AudioMothCode :: "string option"
  Error :: "string option"
  Duration :: "rat option"
  StartDateTime :: start_cell
  payload :: "string list"

record dataframe =
  columns :: "string list"
  rows :: "row list"

definition MINIMUM_RECORD_DURATION :: rat where
  "MINIMUM_RECORD_DURATION = 60"

text \<open>\<^verbatim>\<open>pandas.DataFrame(columns = cols)\<close>: the given header and no rows.\<close>

definition DataFrame :: "string list \<Rightarrow> dataframe" where
  "DataFrame cols = \<lparr>columns = cols, rows = []\<rparr>"

text \<open>Boolean indexing \<^verbatim>\<open>df[mask]\<close>: the rows where the mask \<open>keep\<close> holds, in their order,
  under the same header.\<close>

definition select :: "(row \<Rightarrow> bool) \<Rightarrow> dataframe \<Rightarrow> dataframe" where
  "select keep df = df\<lparr>rows := filter keep (rows df)\<rparr>"

text \<open>\<^verbatim>\<open>df.append(other)\<close>: a new frame, the rows of \<^verbatim>\<open>other\<close> after those of
  \<^verbatim>\<open>df\<close>; columns that only \<^verbatim>\<open>other\<close> has are added at the end of the header.\<close>

definition append_df :: "dataframe \<Rightarrow> dataframe \<Rightarrow> dataframe" where
  "append_df df other =
     \<lparr>columns = columns df @ filter (\<lambda>c. c \<notin> set (columns df)) (columns other),
      rows = rows df @ rows other\<rparr>"

text \<open>\<^verbatim>\<open>Series.isnull()\<close> on one cell.\<close>

definition isnull :: "'a option \<Rightarrow> bool" where
  "isnull c = (c = None)"

text \<open>\<^verbatim>\<open>series > bound\<close> on one cell: a missing number compares False.\<close>

definition gt :: "rat option \<Rightarrow> rat \<Rightarrow> bool" where
  "gt c bound = (case c of None \<Rightarrow> False | Some d \<Rightarrow> bound < d)"

text \<open>The exceptions that the code can raise and does not catch.\<close>

datatype exn = TypeError | AttributeError | ValueError | EOFError

section \<open>The Cleaner\<close>

text \<open>Lines 24-25: \<^verbatim>\<open>imported_data[imported_data[ERROR_COL].isnull()]\<close>.\<close>

definition remove_erroneous_rows :: "dataframe \<Rightarrow> dataframe" where
  "remove_erroneous_rows imported_data = select (\<lambda>r. isnull (Error r)) imported_data"

text \<open>
  Kinds of cells: the texts; the cells that make a column an object column (texts and
  datetime objects); the datetimes without UTC offset.
\<close>

fun is_Text :: "start_cell \<Rightarrow> bool" where
  "is_Text (Text s) = True"
| "is_Text (Stamp t) = False"
| "is_Text NaT = False"
| "is_Text (DatetimeObj t off) = False"

fun is_object :: "start_cell \<Rightarrow> bool" where
  "is_object (Text s) = True"
| "is_object (Stamp t) = False"
| "is_object NaT = False"
| "is_object (DatetimeObj t off) = True"

fun is_naive :: "start_cell \<Rightarrow> bool" where
  "is_naive (Text s) = False"
| "is_naive (Stamp t) = True"
| "is_naive NaT = False"
| "is_naive (DatetimeObj t off) = (off = None)"

text \<open>
  The date parser belongs to pandas, so it is a parameter \<open>parse\<close>: \<open>None\<close> is its refusal of
  the text, otherwise it gives the wall-clock time and the UTC offset the text carries.
  \<open>text_offsets\<close> are the offsets of the texts of a column that the parser accepts,
  \<open>aware_offsets\<close> those of the datetime objects that have one.
\<close>

definition text_offsets ::
  "(string \<Rightarrow> (timestamp \<times> utc_offset) option) \<Rightarrow> start_cell list \<Rightarrow> utc_offset list" where
  "text_offsets parse cells =
     concat (map (\<lambda>c. case c of
                         Text s \<Rightarrow> (case parse s of None \<Rightarrow> [] | Some (t, off) \<Rightarrow> [off])
                       | Stamp t \<Rightarrow> [] | NaT \<Rightarrow> [] | DatetimeObj t off \<Rightarrow> []) cells)"

definition aware_offsets :: "start_cell list \<Rightarrow> int list" where
  "aware_offsets cells =
     concat (map (\<lambda>c. case c of
                         DatetimeObj t off \<Rightarrow> (case off of None \<Rightarrow> [] | Some z \<Rightarrow> [z])
                       | Text s \<Rightarrow> [] | Stamp t \<Rightarrow> [] | NaT \<Rightarrow> []) cells)"

definition all_same :: "'a list \<Rightarrow> bool" where
  "all_same xs = (case xs of [] \<Rightarrow> True | x # ys \<Rightarrow> filter (\<lambda>y. y \<noteq> x) ys = [])"

text \<open>
  One cell converted into a cell of a timestamp column, and into a cell of an object
  column of datetime objects. With \<^verbatim>\<open>errors='coerce'\<close> a refused text becomes NaT in both.
\<close>

fun stamp_cell :: "(string \<Rightarrow> (timestamp \<times> utc_offset) option) \<Rightarrow> start_cell \<Rightarrow> start_cell" where
  "stamp_cell parse (Text s) = (case parse s of None \<Rightarrow> NaT | Some (t, off) \<Rightarrow> Stamp t)"
| "stamp_cell parse (Stamp t) = Stamp t"
| "stamp_cell parse NaT = NaT"
| "stamp_cell parse (DatetimeObj t off) = Stamp t"

fun object_cell :: "(string \<Rightarrow> (timestamp \<times> utc_offset) option) \<Rightarrow> start_cell \<Rightarrow> start_cell" where
  "object_cell parse (Text s) =
     (case parse s of None \<Rightarrow> NaT | Some (t, off) \<Rightarrow> DatetimeObj t off)"
| "object_cell parse (Stamp t) = Stamp t"
| "object_cell parse NaT = NaT"
| "object_cell parse (DatetimeObj t off) = DatetimeObj t off"

text \<open>
  \<^verbatim>\<open>pandas.to_datetime(series, errors='coerce')\<close>, as line 106 calls it (without
  \<^verbatim>\<open>utc=True\<close>), in the pandas versions that have \<^verbatim>\<open>DataFrame.append\<close>. The result is
  decided for the column as a whole:

  \<^item> a timestamp column (or a column of missing values only) is returned as it is;
  \<^item> a column of texts and missing values, as \<^verbatim>\<open>read_csv\<close> gives it: when the accepted
    texts are all naive or all carry the same offset, the result is a timestamp column;
    when they differ (two offsets, or an offset and a naive text), the result stays an
    object column, of datetime objects and NaT;
  \<^item> a column that holds a datetime object with an offset: ValueError (a datetime with an
    offset is not converted unless \<^verbatim>\<open>utc=True\<close>), except when the column has nothing but
    such objects, of one offset, and missing values.

  A column that mixes texts with timestamps or datetime objects arises from no call of
  this program; the same rules are applied to it.
\<close>

definition to_datetime ::
  "(string \<Rightarrow> (timestamp \<times> utc_offset) option) \<Rightarrow> start_cell list \<Rightarrow> exn + start_cell list" where
  "to_datetime parse cells =
     (if filter is_object cells = [] then Inr cells
      else if aware_offsets cells \<noteq> [] then
        (if filter is_Text cells \<noteq> [] \<or> filter is_naive cells \<noteq> []
            \<or> \<not> all_same (aware_offsets cells)
         then Inl ValueError
         else Inr (map (stamp_cell parse) cells))
      else if all_same (text_offsets parse cells) then Inr (map (stamp_cell parse) cells)
      else Inr (map (object_cell parse) cells))"

text \<open>Line 106: the StartDateTime column is replaced by its conversion, cell by cell in
  the order of the rows; an exception of the conversion is the result.\<close>

definition convert_dates ::
  "(string \<Rightarrow> (timestamp \<times> utc_offset) option) \<Rightarrow> dataframe \<Rightarrow> exn + dataframe" where
  "convert_dates parse df =
     (case to_datetime parse (map StartDateTime (rows df)) of
        Inl x \<Rightarrow> Inl x
      | Inr cells \<Rightarrow>
          Inr (df\<lparr>rows := map (\<lambda>(r, c). r\<lparr>StartDateTime := c\<rparr>) (zip (rows df) cells)\<rparr>))"

text \<open>Lines 100 and 106 of \<^verbatim>\<open>main\<close> together: the cleaned table.\<close>

definition clean ::
  "(string \<Rightarrow> (timestamp \<times> utc_offset) option) \<Rightarrow> dataframe \<Rightarrow> exn + dataframe" where
  "clean parse df = convert_dates parse (remove_erroneous_rows df)"

text \<open>A table as \<^verbatim>\<open>read_csv\<close> gives it: every StartDateTime cell is a text or missing.\<close>

definition unconverted :: "dataframe \<Rightarrow> bool" where
  "unconverted df =
     (filter (\<lambda>r. case StartDateTime r of
                     Text s \<Rightarrow> False | NaT \<Rightarrow> False | Stamp t \<Rightarrow> True
                   | DatetimeObj t off \<Rightarrow> True) (rows df) = [])"

section \<open>The world of a run\<close>

text \<open>
  What a run reads and writes besides its tables: the lines printed on the two streams, the
  lines still to be read from standard input, the random generator (\<open>rng w i\<close> is the
  \<open>i\<close>-th number it gives, \<open>drawn w\<close> how many were taken so far) and the log of the file
  operations attempted.
\<close>

datatype io_event = ReadCsv string | ToCsv string dataframe

record world =
  stdout :: "string list"
  stderr :: "string list"
  stdin :: "string list"
  rng :: "nat \<Rightarrow> nat"
  drawn :: nat
  io_log :: "io_event list"

text \<open>\<^verbatim>\<open>print(s)\<close>, and \<^verbatim>\<open>print(s, file=sys.stderr)\<close> or
  \<^verbatim>\<open>sys.stderr.write(s + "\n")\<close>: one more line on the stream.\<close>

definition print :: "string \<Rightarrow> world \<Rightarrow> world" where
  "print s w = w\<lparr>stdout := stdout w @ [s]\<rparr>"

definition print_stderr :: "string \<Rightarrow> world \<Rightarrow> world" where
  "print_stderr s w = w\<lparr>stderr := stderr w @ [s]\<rparr>"

text \<open>\<^verbatim>\<open>input(prompt)\<close>: the prompt goes to standard output, the next line of standard
  input is returned; at end of input Python raises EOFError.\<close>

definition input :: "string \<Rightarrow> world \<Rightarrow> (exn + string) \<times> world" where
  "input prompt w =
     (case stdin w of
        [] \<Rightarrow> (Inl EOFError, w\<lparr>stdout := stdout w @ [prompt]\<rparr>)
      | line # rest \<Rightarrow> (Inr line, w\<lparr>stdout := stdout w @ [prompt], stdin := rest\<rparr>))"

text \<open>\<^verbatim>\<open>str(n)\<close> of a natural number: its decimal digits.\<close>

fun str :: "nat \<Rightarrow> string" where
  "str n = (if n < 10 then [''0123456789'' ! n]
            else str (n div 10) @ [''0123456789'' ! (n mod 10)])"

declare str.simps [simp del]

section \<open>The Stratified Sampler\<close>

text \<open>\<^verbatim>\<open>.dt.hour\<close> of a timestamp.\<close>

definition dt_hour :: "timestamp \<Rightarrow> nat" where
  "dt_hour t = nat ((t div 3600) mod 24)"

text \<open>\<^verbatim>\<open>series.dt.hour == hour\<close> on one cell of a timestamp column: NaT has no hour and
  compares False. The accessor \<^verbatim>\<open>.dt\<close> itself raises AttributeError on an object
  column (\<open>datetimelike\<close> below says that the column is a timestamp column), so the cases
  of a text and of a datetime object are never evaluated.\<close>

fun hour_is :: "nat \<Rightarrow> start_cell \<Rightarrow> bool" where
  "hour_is hour (Stamp t) = (dt_hour t = hour)"
| "hour_is hour NaT = False"
| "hour_is hour (Text s) = False"
| "hour_is hour (DatetimeObj t off) = False"

definition datetimelike :: "dataframe \<Rightarrow> bool" where
  "datetimelike df = (filter (\<lambda>r. is_object (StartDateTime r)) (rows df) = [])"

text \<open>\<^verbatim>\<open>df.sample()\<close>: one row of the frame, chosen by the next number of the random
  generator; pandas raises ValueError on a frame without rows.\<close>

definition sample :: "dataframe \<Rightarrow> world \<Rightarrow> (exn + dataframe) \<times> world" where
  "sample df w =
     (if rows df = [] then (Inl ValueError, w)
      else (Inr (df\<lparr>rows := [rows df ! (rng w (drawn w) mod length (rows df))]\<rparr>),
            w\<lparr>drawn := Suc (drawn w)\<rparr>))"

text \<open>
  Lines 42-48, the loop over \<^verbatim>\<open>range(0, 24)\<close>, as a recursion over the hours still to
  visit. \<open>dt_ok\<close> says whether the StartDateTime column of \<^verbatim>\<open>imported_data\<close> is a
  timestamp column: filtering keeps the column's type, so line 43 raises on any hour when
  it is not.
\<close>

fun pick_hours ::
  "bool \<Rightarrow> dataframe \<Rightarrow> string \<Rightarrow> nat list \<Rightarrow> dataframe \<Rightarrow> world
    \<Rightarrow> (exn + bool \<times> dataframe option) \<times> world" where
  "pick_hours dt_ok device_id_samples_of_min_length device_id [] this_samples w =
     (Inr (True, Some this_samples), w)"
| "pick_hours dt_ok device_id_samples_of_min_length device_id (hour # hours) this_samples w =
     (if \<not> dt_ok then (Inl AttributeError, w)
      else
        let data_for_hour =
              select (\<lambda>r. hour_is hour (StartDateTime r)) device_id_samples_of_min_length
        in if length (rows data_for_hour) < 1
           then (Inr (False, None),
                 print (device_id @ '' did not have any recordings for hour '' @ str hour
                          @ '' and is thus invalid.'') w)
           else (case sample data_for_hour w of
                   (Inl x, w') \<Rightarrow> (Inl x, w')
                 | (Inr picked, w') \<Rightarrow>
                     pick_hours dt_ok device_id_samples_of_min_length device_id hours
                       (append_df this_samples picked) w'))"

text \<open>Lines 32-51. \<^verbatim>\<open>device_id\<close> is a string: line 45 concatenates it with strings.\<close>

definition pick_random_sample ::
  "dataframe \<Rightarrow> string \<Rightarrow> world \<Rightarrow> (exn + bool \<times> dataframe option) \<times> world" where
  "pick_random_sample imported_data device_id w =
     (let this_samples = DataFrame (columns imported_data);
          device_id_samples =
            select (\<lambda>r. AudioMothCode r = Some device_id) imported_data;
          device_id_samples_of_min_length =
            select (\<lambda>r. gt (Duration r) MINIMUM_RECORD_DURATION) device_id_samples
      in pick_hours (datetimelike imported_data) device_id_samples_of_min_length device_id
           [0..<24] this_samples w)"

text \<open>
  The records that count for one device and one hour: the conjunction of the three masks
  of lines 38, 39 and 43. An hour is covered when at least one row of the table passes.
\<close>

definition eligible :: "string \<Rightarrow> nat \<Rightarrow> row \<Rightarrow> bool" where
  "eligible device_id hour r =
     (AudioMothCode r = Some device_id \<and> gt (Duration r) MINIMUM_RECORD_DURATION
        \<and> hour_is hour (StartDateTime r))"

section \<open>Path acquisition and the main program\<close>

text \<open>
  What the run is given: the module flag \<^verbatim>\<open>USE_COMMAND_LINE_ARGS\<close>, \<^verbatim>\<open>sys.argv\<close>, and
  the three library calls whose results depend on the files and on pandas.
  \<open>read_csv path\<close> is the table, or \<open>Inl\<close> the text of the exception raised;
  \<open>to_csv path df\<close> is \<open>None\<close> when the file was written, or the text of the exception.
\<close>

record env =
  USE_COMMAND_LINE_ARGS :: bool
  argv :: "string list"
  read_csv :: "string \<Rightarrow> string + dataframe"
  to_csv :: "string \<Rightarrow> dataframe \<Rightarrow> string option"
  parse_date :: "string \<Rightarrow> (timestamp \<times> utc_offset) option"

text \<open>Lines 55-64.\<close>

definition get_file_to_open :: "env \<Rightarrow> world \<Rightarrow> (exn + string option) \<times> world" where
  "get_file_to_open e w =
     (if USE_COMMAND_LINE_ARGS e then
        (if \<not> (length (argv e) = 2) then
           (Inr None,
            print_stderr
              ''Incorrect usage: ./stratifiedRandomSampler.py csvFilePathInput csvFileOutput'' w)
         else (Inr (Some (argv e ! 0)), w))
      else
        (case input ''Enter input file path: '' w of
           (Inl x, w') \<Rightarrow> (Inl x, w')
         | (Inr read_input, w') \<Rightarrow> (Inr (Some read_input), w')))"

text \<open>Lines 66-75.\<close>

definition get_file_output_path :: "env \<Rightarrow> world \<Rightarrow> (exn + string option) \<times> world" where
  "get_file_output_path e w =
     (if USE_COMMAND_LINE_ARGS e then
        (if \<not> (length (argv e) = 2) then
           (Inr None,
            print_stderr
              ''Incorrect usage: ./stratifiedRandomSampler.py csvFilePath csvFileOutput'' w)
         else (Inr (Some (argv e ! 1)), w))
      else
        (case input ''Enter output file path: '' w of
           (Inl x, w') \<Rightarrow> (Inl x, w')
         | (Inr read_output, w') \<Rightarrow> (Inr (Some read_output), w')))"

text \<open>\<^verbatim>\<open>Series.unique().tolist()\<close>: the distinct values in the order of their first
  appearance; the missing value is one of them when a cell is missing.\<close>

fun unique_from :: "'a list \<Rightarrow> 'a list \<Rightarrow> 'a list" where
  "unique_from seen [] = []"
| "unique_from seen (x # xs) =
     (if x \<in> set seen then unique_from seen xs else x # unique_from (x # seen) xs)"

definition unique :: "'a list \<Rightarrow> 'a list" where
  "unique xs = unique_from [] xs"

text \<open>
  Lines 120-128, the loop over the devices. A missing device identifier is a float NaN, and
  line 121 concatenates it with strings: TypeError. \<^verbatim>\<open>df_output.append(None)\<close> would
  raise TypeError as well.
\<close>

fun device_loop ::
  "dataframe \<Rightarrow> string option list \<Rightarrow> dataframe \<Rightarrow> world \<Rightarrow> (exn + dataframe) \<times> world" where
  "device_loop imported_data [] df_output w = (Inr df_output, w)"
| "device_loop imported_data (device # devices) df_output w =
     (case device of
        None \<Rightarrow> (Inl TypeError, w)
      | Some d \<Rightarrow>
          (case pick_random_sample imported_data d
                  (print (''Attempting to sample from Device ID '' @ d @ ''...'') w) of
             (Inl x, w') \<Rightarrow> (Inl x, w')
           | (Inr (did_select, samples_from_device), w') \<Rightarrow>
               if did_select then
                 (case samples_from_device of
                    None \<Rightarrow> (Inl TypeError, print ''Sample picked!'' w')
                  | Some s \<Rightarrow>
                      device_loop imported_data devices (append_df df_output s)
                        (print ''Sample picked!'' w'))
               else device_loop imported_data devices df_output
                      (print ''Device is invalid.'' w')))"

text \<open>Lines 98-143: \<^verbatim>\<open>main\<close> after the CSV file was read. An exception of the
  conversion of line 106 is not caught.\<close>

definition main_after_read ::
  "env \<Rightarrow> string \<Rightarrow> dataframe \<Rightarrow> world \<Rightarrow> (exn + bool) \<times> world" where
  "main_after_read e output_file_path read_data w0 =
     (let w1 = print ''Data loaded! Removing Erroneous Rows...'' w0;
          imported_data = remove_erroneous_rows read_data;
          w2 = print ''Erroneous rows removed!'' w1;
          w3 = print ''Converting strings to dates... (This will take some time.)'' w2
      in case convert_dates (parse_date e) imported_data of
           Inl x \<Rightarrow> (Inl x, w3)
         | Inr imported_data \<Rightarrow>
             (let w4 = print ''Strings converted!'' w3;
                  w5 = print ''Getting devices...'' w4;
                  device_samples = unique (map AudioMothCode (rows imported_data));
                  w6 = print ''Device list created.'' w5;
                  df_output = DataFrame (columns imported_data)
              in case device_loop imported_data device_samples df_output w6 of
                   (Inl x, w7) \<Rightarrow> (Inl x, w7)
                 | (Inr df_output, w7) \<Rightarrow>
                     (let w8 = print ''Samples ready, outputting...'' w7;
                          w9 = print ''Done. Outputting'' w8;
                          w10 = w9\<lparr>io_log := io_log w9 @ [ToCsv output_file_path df_output]\<rparr>
                      in case to_csv e output_file_path df_output of
                           Some msg \<Rightarrow>
                             (Inr False,
                              print_stderr (''Error when writing to CSV File. See: '' @ msg) w10)
                         | None \<Rightarrow> (Inr True, w10))))"

text \<open>Lines 79-96, then the rest. The result is the value returned, or \<open>Inl\<close> the
  exception that left \<^verbatim>\<open>main\<close> uncaught.\<close>

definition main :: "env \<Rightarrow> world \<Rightarrow> (exn + bool) \<times> world" where
  "main e w0 =
     (case get_file_to_open e w0 of
        (Inl x, w1) \<Rightarrow> (Inl x, w1)
      | (Inr None, w1) \<Rightarrow> (Inr False, w1)
      | (Inr (Some input_file_path), w1) \<Rightarrow>
          (case get_file_output_path e w1 of
             (Inl x, w2) \<Rightarrow> (Inl x, w2)
           | (Inr None, w2) \<Rightarrow> (Inr False, w2)
           | (Inr (Some output_file_path), w2) \<Rightarrow>
               (let w3 = w2\<lparr>io_log := io_log w2 @ [ReadCsv input_file_path]\<rparr>
                in case read_csv e input_file_path of
                     Inl msg \<Rightarrow>
                       (Inr False,
                        print_stderr (''Error when opening CSV File. See: '' @ msg) w3)
                   | Inr imported_data \<Rightarrow>
                       main_after_read e output_file_path imported_data w3)))"

section \<open>Example inputs\<close>

text \<open>
  Concrete inputs on which the theorems below are instantiated. \<open>example_parse\<close> gives the
  date parser's answers on the texts of the example tables: the half hours of 5 March 2021,
  written without UTC offset, and a refusal of every other text.
\<close>

definition recording :: "string option \<Rightarrow> string option \<Rightarrow> rat option \<Rightarrow> string \<Rightarrow> row" where
  "recording device err dur start =
     \<lparr>AudioMothCode = device, Error = err, Duration = dur, StartDateTime = Text start,
      payload = [''rec.wav'']\<rparr>"

definition example_parse :: "string \<Rightarrow> (timestamp \<times> utc_offset) option" where
  "example_parse = map_of
     [(''2021-03-05 00:30:00'', (1614904200, None)),
      (''2021-03-05 01:30:00'', (1614907800, None)),
      (''2021-03-05 02:30:00'', (1614911400, None)),
      (''2021-03-05 03:30:00'', (1614915000, None)),
      (''2021-03-05 04:30:00'', (1614918600, None)),
      (''2021-03-05 05:30:00'', (1614922200, None)),
      (''2021-03-05 06:30:00'', (1614925800, None)),
      (''2021-03-05 07:30:00'', (1614929400, None)),
      (''2021-03-05 08:30:00'', (1614933000, None)),
      (''2021-03-05 09:30:00'', (1614936600, None)),
      (''2021-03-05 10:30:00'', (1614940200, None)),
      (''2021-03-05 11:30:00'', (1614943800, None)),
      (''2021-03-05 12:30:00'', (1614947400, None)),
      (''2021-03-05 13:30:00'', (1614951000, None)),
      (''2021-03-05 14:30:00'', (1614954600, None)),
      (''2021-03-05 15:30:00'', (1614958200, None)),
      (''2021-03-05 16:30:00'', (1614961800, None)),
      (''2021-03-05 17:30:00'', (1614965400, None)),
      (''2021-03-05 18:30:00'', (1614969000, None)),
      (''2021-03-05 19:30:00'', (1614972600, None)),
      (''2021-03-05 20:30:00'', (1614976200, None)),
      (''2021-03-05 21:30:00'', (1614979800, None)),
      (''2021-03-05 22:30:00'', (1614983400, None)),
      (''2021-03-05 23:30:00'', (1614987000, None))]"

text \<open>One recording of two minutes in every hour of the day, for the device \<open>d\<close>.\<close>

definition full_day :: "string \<Rightarrow> row list" where
  "full_day d =
     [recording (Some d) None (Some 120) ''2021-03-05 00:30:00'',
      recording (Some d) None (Some 120) ''2021-03-05 01:30:00'',
      recording (Some d) None (Some 120) ''2021-03-05 02:30:00'',
      recording (Some d) None (Some 120) ''2021-03-05 03:30:00'',
      recording (Some d) None (Some 120) ''2021-03-05 04:30:00'',
      recording (Some d) None (Some 120) ''2021-03-05 05:30:00'',
      recording (Some d) None (Some 120) ''2021-03-05 06:30:00'',
      recording (Some d) None (Some 120) ''2021-03-05 07:30:00'',
      recording (Some d) None (Some 120) ''2021-03-05 08:30:00'',
      recording (Some d) None (Some 120) ''2021-03-05 09:30:00'',
      recording (Some d) None (Some 120) ''2021-03-05 10:30:00'',
      recording (Some d) None (Some 120) ''2021-03-05 11:30:00'',
      recording (Some d) None (Some 120) ''2021-03-05 12:30:00'',
      recording (Some d) None (Some 120) ''2021-03-05 13:30:00'',
      recording (Some d) None (Some 120) ''2021-03-05 14:30:00'',
      recording (Some d) None (Some 120) ''2021-03-05 15:30:00'',
      recording (Some d) None (Some 120) ''2021-03-05 16:30:00'',
      recording (Some d) None (Some 120) ''2021-03-05 17:30:00'',
      recording (Some d) None (Some 120) ''2021-03-05 18:30:00'',
      recording (Some d) None (Some 120) ''2021-03-05 19:30:00'',
      recording (Some d) None (Some 120) ''2021-03-05 20:30:00'',
      recording (Some d) None (Some 120) ''2021-03-05 21:30:00'',
      recording (Some d) None (Some 120) ''2021-03-05 22:30:00'',
      recording (Some d) None (Some 120) ''2021-03-05 23:30:00'']"

definition example_columns :: "string list" where
  "example_columns =
     [''AudioMothCode'', ''Error'', ''Duration'', ''StartDateTime'', ''FileName'']"

text \<open>
  Device D1 has a full day, and besides a short recording, a recording with an error and one
  whose start time is no date; device D2 has recordings in the hours 0 and 1 only.
\<close>

definition example_table :: dataframe where
  "example_table =
     \<lparr>columns = example_columns,
      rows = full_day ''D1'' @
        [recording (Some ''D1'') None (Some 30) ''2021-03-05 05:30:00'',
         recording (Some ''D1'') (Some ''corrupt'') (Some 300) ''2021-03-05 06:30:00'',
         recording (Some ''D1'') None (Some 300) ''not a date'',
         recording (Some ''D2'') None (Some 90) ''2021-03-05 00:30:00'',
         recording (Some ''D2'') None (Some 61) ''2021-03-05 01:30:00'']\<rparr>"

text \<open>The cleaned \<open>example_table\<close>, written out.\<close>

definition example_cleaned :: dataframe where
  "example_cleaned =
     \<lparr>columns = example_columns,
      rows =
       [\<lparr>AudioMothCode = Some ''D1'', Error = None, Duration = Some 120,
        StartDateTime = Stamp 1614904200, payload = [''rec.wav'']\<rparr>,
        \<lparr>AudioMothCode = Some ''D1'', Error = None, Duration = Some 120,
        StartDateTime = Stamp 1614907800, payload = [''rec.wav'']\<rparr>,
        \<lparr>AudioMothCode = Some ''D1'', Error = None, Duration = Some 120,
        StartDateTime = Stamp 1614911400, payload = [''rec.wav'']\<rparr>,
        \<lparr>AudioMothCode = Some ''D1'', Error = None, Duration = Some 120,
        StartDateTime = Stamp 1614915000, payload = [''rec.wav'']\<rparr>,
        \<lparr>AudioMothCode = Some ''D1'', Error = None, Duration = Some 120,
        StartDateTime = Stamp 1614918600, payload = [''rec.wav'']\<rparr>,
        \<lparr>AudioMothCode = Some ''D1'', Error = None, Duration = Some 120,
        StartDateTime = Stamp 1614922200, payload = [''rec.wav'']\<rparr>,
        \<lparr>AudioMothCode = Some ''D1'', Error = None, Duration = Some 120,
        StartDateTime = Stamp 1614925800, payload = [''rec.wav'']\<rparr>,
        \<lparr>AudioMothCode = Some ''D1'', Error = None, Duration = Some 120,
        StartDateTime = Stamp 1614929400, payload = [''rec.wav'']\<rparr>,
        \<lparr>AudioMothCode = Some ''D1'', Error = None, Duration = Some 120,
        StartDateTime = Stamp 1614933000, payload = [''rec.wav'']\<rparr>,
        \<lparr>AudioMothCode = Some ''D1'', Error = None, Duration = Some 120,
        StartDateTime = Stamp 1614936600, payload = [''rec.wav'']\<rparr>,
        \<lparr>AudioMothCode = Some ''D1'', Error = None, Duration = Some 120,
        StartDateTime = Stamp 1614940200, payload = [''rec.wav'']\<rparr>,
        \<lparr>AudioMothCode = Some ''D1'', Error = None, Duration = Some 120,
        StartDateTime = Stamp 1614943800, payload = [''rec.wav'']\<rparr>,
        \<lparr>AudioMothCode = Some ''D1'', Error = None, Duration = Some 120,
        StartDateTime = Stamp 1614947400, payload = [''rec.wav'']\<rparr>,
        \<lparr>AudioMothCode = Some ''D1'', Error = None, Duration = Some 120,
        StartDateTime = Stamp 1614951000, payload = [''rec.wav'']\<rparr>,
        \<lparr>AudioMothCode = Some ''D1'', Error = None, Duration = Some 120,
        StartDateTime = Stamp 1614954600, payload = [''rec.wav'']\<rparr>,
        \<lparr>AudioMothCode = Some ''D1'', Error = None, Duration = Some 120,
        StartDateTime = Stamp 1614958200, payload = [''rec.wav'']\<rparr>,
        \<lparr>AudioMothCode = Some ''D1'', Error = None, Duration = Some 120,
        StartDateTime = Stamp 1614961800, payload = [''rec.wav'']\<rparr>,
        \<lparr>AudioMothCode = Some ''D1'', Error = None, Duration = Some 120,
        StartDateTime = Stamp 1614965400, payload = [''rec.wav'']\<rparr>,
        \<lparr>AudioMothCode = Some ''D1'', Error = None, Duration = Some 120,
        StartDateTime = Stamp 1614969000, payload = [''rec.wav'']\<rparr>,
        \<lparr>AudioMothCode = Some ''D1'', Error = None, Duration = Some 120,
        StartDateTime = Stamp 1614972600, payload = [''rec.wav'']\<rparr>,
        \<lparr>AudioMothCode = Some ''D1'', Error = None, Duration = Some 120,
        StartDateTime = Stamp 1614976200, payload = [''rec.wav'']\<rparr>,
        \<lparr>AudioMothCode = Some ''D1'', Error = None, Duration = Some 120,
        StartDateTime = Stamp 1614979800, payload = [''rec.wav'']\<rparr>,
        \<lparr>AudioMothCode = Some ''D1'', Error = None, Duration = Some 120,
        StartDateTime = Stamp 1614983400, payload = [''rec.wav'']\<rparr>,
        \<lparr>AudioMothCode = Some ''D1'', Error = None, Duration = Some 120,
        StartDateTime = Stamp 1614987000, payload = [''rec.wav'']\<rparr>,
        \<lparr>AudioMothCode = Some ''D1'', Error = None, Duration = Some 30,
        StartDateTime = Stamp 1614922200, payload = [''rec.wav'']\<rparr>,
        \<lparr>AudioMothCode = Some ''D1'', Error = None, Duration = Some 300,
        StartDateTime = NaT, payload = [''rec.wav'']\<rparr>,
        \<lparr>AudioMothCode = Some ''D2'', Error = None, Duration = Some 90,
        StartDateTime = Stamp 1614904200, payload = [''rec.wav'']\<rparr>,
        \<lparr>AudioMothCode = Some ''D2'', Error = None, Duration = Some 61,
        StartDateTime = Stamp 1614907800, payload = [''rec.wav'']\<rparr>]\<rparr>"

definition example_world :: world where
  "example_world =
     \<lparr>stdout = [], stderr = [], stdin = [''in.csv'', ''out.csv''],
      rng = (\<lambda>i. 7 * i + 3), drawn = 0, io_log = []\<rparr>"

text \<open>A table whose first row has no device identifier, the table after the Cleaner, and
  the run that reads it: both files can be read and written.\<close>

definition missing_id_table :: dataframe where
  "missing_id_table =
     \<lparr>columns = example_columns,
      rows = [recording None None (Some 120) ''2021-03-05 00:30:00'',
              recording (Some ''D1'') None (Some 120) ''2021-03-05 00:30:00'']\<rparr>"

definition missing_id_cleaned :: dataframe where
  "missing_id_cleaned =
     \<lparr>columns = example_columns,
      rows =
       [\<lparr>AudioMothCode = None, Error = None, Duration = Some 120,
        StartDateTime = Stamp 1614904200, payload = [''rec.wav'']\<rparr>,
        \<lparr>AudioMothCode = Some ''D1'', Error = None, Duration = Some 120,
        StartDateTime = Stamp 1614904200, payload = [''rec.wav'']\<rparr>]\<rparr>"

definition missing_id_env :: env where
  "missing_id_env =
     \<lparr>USE_COMMAND_LINE_ARGS = False, argv = [''stratifiedRandomSampler.py''],
      read_csv = (\<lambda>path. Inr missing_id_table), to_csv = (\<lambda>path df. None),
      parse_date = example_parse\<rparr>"

text \<open>The documented command line, with the flag \<^verbatim>\<open>USE_COMMAND_LINE_ARGS\<close> set; and the
  command line with one argument. Only \<^verbatim>\<open>in.csv\<close> is a CSV file.\<close>

definition args_env :: env where
  "args_env =
     \<lparr>USE_COMMAND_LINE_ARGS = True,
      argv = [''./stratifiedRandomSampler.py'', ''in.csv'', ''out.csv''],
      read_csv = (\<lambda>path. if path = ''in.csv'' then Inr example_table
                         else Inl ''Error tokenizing data''),
      to_csv = (\<lambda>path df. None),
      parse_date = example_parse\<rparr>"

definition one_arg_env :: env where
  "one_arg_env = args_env\<lparr>argv := [''./stratifiedRandomSampler.py'', ''in.csv'']\<rparr>"

text \<open>
  Two recordings of device D1 whose start times carry different UTC offsets (recorders
  set to different time zones), the parser's answers on them, and the table after the
  Cleaner: an object column of datetime objects.
\<close>

definition mixed_parse :: "string \<Rightarrow> (timestamp \<times> utc_offset) option" where
  "mixed_parse = map_of
     [(''2021-03-05 00:30:00+00:00'', (1614904200, Some 0)),
      (''2021-03-05 01:30:00+01:00'', (1614907800, Some 3600))]"

definition mixed_table :: dataframe where
  "mixed_table =
     \<lparr>columns = example_columns,
      rows = [recording (Some ''D1'') None (Some 120) ''2021-03-05 00:30:00+00:00'',
              recording (Some ''D1'') None (Some 120) ''2021-03-05 01:30:00+01:00'']\<rparr>"

definition mixed_cleaned :: dataframe where
  "mixed_cleaned =
     \<lparr>columns = example_columns,
      rows =
       [\<lparr>AudioMothCode = Some ''D1'', Error = None, Duration = Some 120,
        StartDateTime = DatetimeObj 1614904200 (Some 0), payload = [''rec.wav'']\<rparr>,
        \<lparr>AudioMothCode = Some ''D1'', Error = None, Duration = Some 120,
        StartDateTime = DatetimeObj 1614907800 (Some 3600), payload = [''rec.wav'']\<rparr>]\<rparr>"

definition mixed_env :: env where
  "mixed_env =
     \<lparr>USE_COMMAND_LINE_ARGS = False, argv = [''stratifiedRandomSampler.py''],
      read_csv = (\<lambda>path. Inr mixed_table), to_csv = (\<lambda>path df. None),
      parse_date = mixed_parse\<rparr>"

section \<open>Properties of the Cleaner\<close>

lemma rows_remove_erroneous_rows:
  "rows (remove_erroneous_rows df) = filter (\<lambda>r. Error r = None) (rows df)"
  by (simp add: remove_erroneous_rows_def select_def isnull_def)

lemma columns_remove_erroneous_rows:
  "columns (remove_erroneous_rows df) = columns df"
  by (simp add: remove_erroneous_rows_def select_def)

lemma length_filter_eq_iff:
  "length (filter P xs) = length xs \<longleftrightarrow> filter P xs = xs"
proof
  assume len: "length (filter P xs) = length xs"
  have "subseq (filter P xs) xs" by simp
  then show "filter P xs = xs" using len by (rule subseq_same_length)
qed simp

lemma count_list_filter_keep:
  "P r \<Longrightarrow> count_list (filter P xs) r = count_list xs r"
  by (induction xs) auto

lemma to_datetime_Inr:
  assumes "to_datetime parse cells = Inr cells'"
  shows "filter is_object cells = [] \<and> cells' = cells
       \<or> filter is_object cells \<noteq> []
           \<and> (cells' = map (stamp_cell parse) cells \<or> cells' = map (object_cell parse) cells)"
  using assms by (auto simp: to_datetime_def split: if_splits)

lemma zip_map_update:
  "map (\<lambda>(r, c). r\<lparr>StartDateTime := c\<rparr>) (zip xs (map f (map StartDateTime xs)))
     = map (\<lambda>r. r\<lparr>StartDateTime := f (StartDateTime r)\<rparr>) xs"
  by (induction xs) auto

lemma zip_same_update:
  "map (\<lambda>(r, c). r\<lparr>StartDateTime := c\<rparr>) (zip xs (map StartDateTime xs)) = xs"
  by (induction xs) auto

lemma datetimelike_cells:
  "datetimelike df \<longleftrightarrow> filter is_object (map StartDateTime (rows df)) = []"
  by (simp add: datetimelike_def filter_map o_def)

text \<open>A conversion that succeeds leaves a timestamp column as it is, and otherwise
  converts every cell by one of the two cell functions.\<close>

lemma convert_dates_Inr:
  assumes "convert_dates parse df = Inr t"
  shows "datetimelike df \<and> t = df
       \<or> \<not> datetimelike df
           \<and> (\<exists>f. (f = stamp_cell parse \<or> f = object_cell parse)
                  \<and> t = df\<lparr>rows := map (\<lambda>r. r\<lparr>StartDateTime := f (StartDateTime r)\<rparr>) (rows df)\<rparr>)"
proof -
  from assms obtain cells where
    cells: "to_datetime parse (map StartDateTime (rows df)) = Inr cells"
    and t: "t = df\<lparr>rows := map (\<lambda>(r, c). r\<lparr>StartDateTime := c\<rparr>) (zip (rows df) cells)\<rparr>"
    by (auto simp: convert_dates_def split: sum.splits)
  from to_datetime_Inr [OF cells] show ?thesis
  proof (elim disjE conjE)
    assume "filter is_object (map StartDateTime (rows df)) = []"
      and "cells = map StartDateTime (rows df)"
    then show ?thesis using t by (simp add: datetimelike_cells zip_same_update)
  next
    assume "filter is_object (map StartDateTime (rows df)) \<noteq> []"
      and "cells = map (stamp_cell parse) (map StartDateTime (rows df))"
    then show ?thesis using t
      by (simp only: datetimelike_cells zip_map_update) blast
  next
    assume "filter is_object (map StartDateTime (rows df)) \<noteq> []"
      and "cells = map (object_cell parse) (map StartDateTime (rows df))"
    then show ?thesis using t
      by (simp only: datetimelike_cells zip_map_update) blast
  qed
qed

lemma convert_dates_cellwise:
  assumes "convert_dates parse df = Inr t"
  obtains f where
    "t = df\<lparr>rows := map (\<lambda>r. r\<lparr>StartDateTime := f (StartDateTime r)\<rparr>) (rows df)\<rparr>"
    "f = id \<and> datetimelike df \<or> f = stamp_cell parse \<or> f = object_cell parse"
proof -
  from convert_dates_Inr [OF assms] consider
    (same) "datetimelike df" "t = df"
  | (cells) f where "f = stamp_cell parse \<or> f = object_cell parse"
      "t = df\<lparr>rows := map (\<lambda>r. r\<lparr>StartDateTime := f (StartDateTime r)\<rparr>) (rows df)\<rparr>"
    by blast
  then show thesis
  proof cases
    case same
    then show thesis using that [of id] by simp
  next
    case cells
    then show thesis using that [of f] by blast
  qed
qed

lemma convert_dates_frame:
  assumes "convert_dates parse df = Inr t"
  shows "columns t = columns df" and "length (rows t) = length (rows df)"
    and "map AudioMothCode (rows t) = map AudioMothCode (rows df)"
    and "map Error (rows t) = map Error (rows df)"
proof -
  from assms obtain f where
    t: "t = df\<lparr>rows := map (\<lambda>r. r\<lparr>StartDateTime := f (StartDateTime r)\<rparr>) (rows df)\<rparr>"
    by (rule convert_dates_cellwise)
  show "columns t = columns df" "length (rows t) = length (rows df)"
    "map AudioMothCode (rows t) = map AudioMothCode (rows df)"
    "map Error (rows t) = map Error (rows df)"
    by (simp_all add: t o_def)
qed

lemma convert_dates_refused:
  assumes conv: "convert_dates parse df = Inr t"
      and r: "r \<in> set (rows df)" and unparsed: "StartDateTime r = Text s"
      and refused: "parse s = None"
  shows "r\<lparr>StartDateTime := NaT\<rparr> \<in> set (rows t)"
proof -
  from conv obtain f where
    t: "t = df\<lparr>rows := map (\<lambda>r. r\<lparr>StartDateTime := f (StartDateTime r)\<rparr>) (rows df)\<rparr>"
    and f: "f = id \<and> datetimelike df \<or> f = stamp_cell parse \<or> f = object_cell parse"
    by (rule convert_dates_cellwise)
  have "\<not> datetimelike df"
  proof
    assume "datetimelike df"
    then have "\<not> is_object (StartDateTime r)"
      using r by (simp add: datetimelike_def filter_empty_conv)
    then show False using unparsed by simp
  qed
  then have "f (Text s) = NaT" using f refused by auto
  then have "r\<lparr>StartDateTime := f (StartDateTime r)\<rparr> = r\<lparr>StartDateTime := NaT\<rparr>"
    using unparsed by simp
  then show ?thesis using r unfolding t by force
qed

lemma convert_dates_timestamps: "datetimelike t \<Longrightarrow> convert_dates parse t = Inr t"
  by (simp add: convert_dates_def to_datetime_def datetimelike_cells zip_same_update)

lemma aware_offsets_unconverted:
  "filter (\<lambda>c. case c of Text s \<Rightarrow> False | NaT \<Rightarrow> False | Stamp t \<Rightarrow> True
                 | DatetimeObj t off \<Rightarrow> True) cells = [] \<Longrightarrow> aware_offsets cells = []"
  by (induction cells) (auto simp: aware_offsets_def split: start_cell.splits if_splits)

lemma convert_dates_unconverted:
  assumes "unconverted df"
  shows "\<exists>t. convert_dates parse df = Inr t"
proof -
  have "filter (\<lambda>c. case c of Text s \<Rightarrow> False | NaT \<Rightarrow> False | Stamp t \<Rightarrow> True
                 | DatetimeObj t off \<Rightarrow> True) (map StartDateTime (rows df)) = []"
    using assms by (simp add: unconverted_def filter_map o_def)
  then have "aware_offsets (map StartDateTime (rows df)) = []"
    by (rule aware_offsets_unconverted)
  then show ?thesis
    by (simp add: convert_dates_def to_datetime_def)
qed

lemma unconverted_remove_erroneous_rows:
  "unconverted df \<Longrightarrow> unconverted (remove_erroneous_rows df)"
  by (auto simp: unconverted_def rows_remove_erroneous_rows filter_empty_conv)

lemma clean_unconverted: "unconverted df \<Longrightarrow> \<exists>t. clean parse df = Inr t"
  unfolding clean_def
  by (intro convert_dates_unconverted unconverted_remove_erroneous_rows)

lemma clean_frame:
  assumes "clean parse df = Inr t"
  shows "columns t = columns df"
    and "length (rows t) = length (rows (remove_erroneous_rows df))"
    and "map AudioMothCode (rows t) = map AudioMothCode (rows (remove_erroneous_rows df))"
    and "map Error (rows t) = map Error (rows (remove_erroneous_rows df))"
  using convert_dates_frame [OF assms [unfolded clean_def]]
  by (simp_all add: columns_remove_erroneous_rows)

lemma clean_no_error:
  assumes "clean parse df = Inr t"
  shows "remove_erroneous_rows t = t"
proof -
  have "map Error (rows t) = map Error (filter (\<lambda>r. Error r = None) (rows df))"
    using clean_frame(4) [OF assms] by (simp add: rows_remove_erroneous_rows)
  then have "set (map Error (rows t)) \<subseteq> {None}" by auto
  then have "\<forall>r\<in>set (rows t). Error r = None" by auto
  then have "filter (\<lambda>r. Error r = None) (rows t) = rows t" by simp
  then show ?thesis
    by (simp add: remove_erroneous_rows_def select_def isnull_def)
qed

text \<open>
  Cleaning again a cleaned table whose StartDateTime column is a timestamp column gives
  the table back.
\<close>

lemma clean_idempotent_on_timestamps:
  assumes "clean parse df = Inr t" and "datetimelike t"
  shows "clean parse t = Inr t"
  using assms by (simp add: clean_def [of parse t] clean_no_error convert_dates_timestamps)

text \<open>
  Claim C3. The Cleaner's row filter keeps exactly the rows whose error field is null, each
  unchanged and in its order, under the same header: a row is in the output if and only if
  it is in the input with a null error, as often as it is in the input; so no output row
  has a non-null error, the output is not longer than the input, and it is as long if and
  only if no input row had a non-null error. The same lengths hold for the table that the
  whole Cleaner returns, and it returns one for every table as read from the CSV file.
\<close>

theorem remove_erroneous_rows_exact:
  "(\<forall>r. r \<in> set (rows (remove_erroneous_rows df)) \<longleftrightarrow> r \<in> set (rows df) \<and> Error r = None)
   \<and> (\<forall>r. Error r = None \<longrightarrow>
          count_list (rows (remove_erroneous_rows df)) r = count_list (rows df) r)
   \<and> subseq (rows (remove_erroneous_rows df)) (rows df)
   \<and> columns (remove_erroneous_rows df) = columns df
   \<and> length (rows (remove_erroneous_rows df)) \<le> length (rows df)
   \<and> (length (rows (remove_erroneous_rows df)) = length (rows df)
        \<longleftrightarrow> (\<forall>r\<in>set (rows df). Error r = None))
   \<and> (\<forall>t. clean parse df = Inr t \<longrightarrow>
          length (rows t) \<le> length (rows df)
          \<and> (length (rows t) = length (rows df) \<longleftrightarrow> (\<forall>r\<in>set (rows df). Error r = None)))
   \<and> (unconverted df \<longrightarrow> (\<exists>t. clean parse df = Inr t))"
proof -
  let ?out = "rows (remove_erroneous_rows df)"
  have mem: "\<forall>r. r \<in> set ?out \<longleftrightarrow> r \<in> set (rows df) \<and> Error r = None"
    by (simp add: rows_remove_erroneous_rows)
  have cnt: "\<forall>r. Error r = None \<longrightarrow> count_list ?out r = count_list (rows df) r"
    by (simp add: rows_remove_erroneous_rows count_list_filter_keep)
  have sub: "subseq ?out (rows df)"
    by (simp add: rows_remove_erroneous_rows)
  have le: "length ?out \<le> length (rows df)"
    by (simp add: rows_remove_erroneous_rows)
  have eq: "length ?out = length (rows df) \<longleftrightarrow> (\<forall>r\<in>set (rows df). Error r = None)"
    by (simp add: rows_remove_erroneous_rows length_filter_eq_iff filter_id_conv)
  have cl: "\<forall>t. clean parse df = Inr t \<longrightarrow>
          length (rows t) \<le> length (rows df)
          \<and> (length (rows t) = length (rows df) \<longleftrightarrow> (\<forall>r\<in>set (rows df). Error r = None))"
    using le eq by (auto simp: clean_frame(2))
  have tot: "unconverted df \<longrightarrow> (\<exists>t. clean parse df = Inr t)"
    by (simp add: clean_unconverted)
  show ?thesis
    using mem cnt sub le eq cl tot columns_remove_erroneous_rows [of df] by blast
qed

section \<open>Properties of the Stratified Sampler\<close>

lemma rows_select [simp]: "rows (select P df) = filter P (rows df)"
  by (simp add: select_def)

lemma columns_select [simp]: "columns (select P df) = columns df"
  by (simp add: select_def)

lemma pick_hours_reject:
  assumes "\<forall>h\<in>set hs1. filter (\<lambda>r. hour_is h (StartDateTime r)) (rows dmin) \<noteq> []"
      and "filter (\<lambda>r. hour_is h0 (StartDateTime r)) (rows dmin) = []"
  shows "pick_hours True dmin d (hs1 @ h0 # hs2) acc w =
           (Inr (False, None),
            w\<lparr>stdout := stdout w @ [d @ '' did not have any recordings for hour '' @ str h0
                                      @ '' and is thus invalid.''],
              drawn := drawn w + length hs1\<rparr>)"
  using assms
proof (induction hs1 arbitrary: acc w)
  case Nil
  then show ?case by (simp add: print_def)
next
  case (Cons h hs1)
  then show ?case by (simp add: sample_def Let_def)
qed

lemma pick_hours_accept:
  assumes "\<forall>h\<in>set hs. filter (\<lambda>r. hour_is h (StartDateTime r)) (rows dmin) \<noteq> []"
      and "columns acc = columns dmin"
  shows "\<exists>picks. pick_hours True dmin d hs acc w =
            (Inr (True, Some \<lparr>columns = columns dmin, rows = rows acc @ picks\<rparr>),
             w\<lparr>drawn := drawn w + length hs\<rparr>)
          \<and> length picks = length hs
          \<and> (\<forall>i<length hs. picks ! i \<in> set (filter (\<lambda>r. hour_is (hs ! i) (StartDateTime r)) (rows dmin)))"
  using assms
proof (induction hs arbitrary: acc w)
  case Nil
  then show ?case by simp
next
  case (Cons h hs)
  let ?bucket = "filter (\<lambda>r. hour_is h (StartDateTime r)) (rows dmin)"
  let ?p = "?bucket ! (rng w (drawn w) mod length ?bucket)"
  let ?acc = "\<lparr>columns = columns dmin, rows = rows acc @ [?p]\<rparr>"
  let ?w = "w\<lparr>drawn := Suc (drawn w)\<rparr>"
  from Cons.prems have ne: "?bucket \<noteq> []" by simp
  have step: "pick_hours True dmin d (h # hs) acc w = pick_hours True dmin d hs ?acc ?w"
    using ne Cons.prems(2) by (simp add: sample_def Let_def append_df_def)
  have "\<forall>h\<in>set hs. filter (\<lambda>r. hour_is h (StartDateTime r)) (rows dmin) \<noteq> []"
    using Cons.prems(1) by simp
  moreover have "columns ?acc = columns dmin" by simp
  ultimately obtain picks where
    res: "pick_hours True dmin d hs ?acc ?w =
            (Inr (True, Some \<lparr>columns = columns dmin, rows = rows ?acc @ picks\<rparr>),
             ?w\<lparr>drawn := drawn ?w + length hs\<rparr>)"
    and len: "length picks = length hs"
    and mem: "\<forall>i<length hs. picks ! i \<in> set (filter (\<lambda>r. hour_is (hs ! i) (StartDateTime r)) (rows dmin))"
    using Cons.IH [of ?acc ?w] by blast
  have pmem: "?p \<in> set ?bucket" by (rule nth_mem) (use ne in simp)
  have "\<forall>i<length (h # hs). (?p # picks) ! i \<in> set (filter (\<lambda>r. hour_is ((h # hs) ! i) (StartDateTime r)) (rows dmin))"
  proof (intro allI impI)
    fix i assume "i < length (h # hs)"
    then show "(?p # picks) ! i \<in> set (filter (\<lambda>r. hour_is ((h # hs) ! i) (StartDateTime r)) (rows dmin))"
      using pmem mem by (cases i) auto
  qed
  then show ?case using step res len
    by (intro exI [of _ "?p # picks"]) simp
qed


lemma hour_is_iff: "hour_is h c \<longleftrightarrow> (\<exists>ts. c = Stamp ts \<and> dt_hour ts = h)"
  by (cases c) auto

lemma gt_iff: "gt c b \<longleftrightarrow> (\<exists>x. c = Some x \<and> b < x)"
  by (cases c) (auto simp: gt_def)

lemma eligible_iff:
  "eligible d h r \<longleftrightarrow>
     AudioMothCode r = Some d \<and> (\<exists>x. Duration r = Some x \<and> 60 < x)
       \<and> (\<exists>ts. StartDateTime r = Stamp ts \<and> dt_hour ts = h)"
  by (simp add: eligible_def hour_is_iff gt_iff MINIMUM_RECORD_DURATION_def)

lemma bucket_eligible:
  "filter (\<lambda>r. hour_is h (StartDateTime r))
     (rows (select (\<lambda>r. gt (Duration r) MINIMUM_RECORD_DURATION)
              (select (\<lambda>r. AudioMothCode r = Some d) t)))
   = filter (eligible d h) (rows t)"
  by (simp add: eligible_def conj_commute conj_left_commute cong: filter_cong)

lemma hours_split: "h0 < 24 \<Longrightarrow> [0..<24] = [0..<h0] @ h0 # [Suc h0..<24]"
proof -
  assume h: "h0 < 24"
  have "[0..<24] = [0..<h0] @ [h0..<24]"
    using h upt_add_eq_append [of 0 h0 "24 - h0"] by simp
  also have "[h0..<24] = h0 # [Suc h0..<24]"
    using h by (simp add: upt_conv_Cons)
  finally show ?thesis .
qed

lemma pick_random_sample_reject:
  assumes dt: "datetimelike t" and h0: "h0 < 24"
      and empty: "filter (eligible d h0) (rows t) = []"
      and before: "\<forall>h<h0. filter (eligible d h) (rows t) \<noteq> []"
  shows "pick_random_sample t d w =
           (Inr (False, None),
            w\<lparr>stdout := stdout w @ [d @ '' did not have any recordings for hour '' @ str h0
                                      @ '' and is thus invalid.''],
              drawn := drawn w + h0\<rparr>)"
proof -
  let ?dmin = "select (\<lambda>r. gt (Duration r) MINIMUM_RECORD_DURATION)
                 (select (\<lambda>r. AudioMothCode r = Some d) t)"
  have a: "\<forall>h\<in>set [0..<h0]. filter (\<lambda>r. hour_is h (StartDateTime r)) (rows ?dmin) \<noteq> []"
    using before by (simp only: bucket_eligible) simp
  have b: "filter (\<lambda>r. hour_is h0 (StartDateTime r)) (rows ?dmin) = []"
    using empty by (simp only: bucket_eligible)
  show ?thesis
    unfolding pick_random_sample_def Let_def hours_split [OF h0]
    using pick_hours_reject [OF a b, of d "[Suc h0..<24]" "DataFrame (columns t)" w] dt
    by simp
qed

lemma pick_random_sample_accept:
  assumes dt: "datetimelike t"
      and full: "\<forall>h<24. filter (eligible d h) (rows t) \<noteq> []"
  shows "\<exists>picks. pick_random_sample t d w =
            (Inr (True, Some \<lparr>columns = columns t, rows = picks\<rparr>),
             w\<lparr>drawn := drawn w + 24\<rparr>)
          \<and> length picks = 24
          \<and> (\<forall>h<24. picks ! h \<in> set (filter (eligible d h) (rows t)))"
proof -
  let ?dmin = "select (\<lambda>r. gt (Duration r) MINIMUM_RECORD_DURATION)
                 (select (\<lambda>r. AudioMothCode r = Some d) t)"
  have a: "\<forall>h\<in>set [0..<24]. filter (\<lambda>r. hour_is h (StartDateTime r)) (rows ?dmin) \<noteq> []"
    using full by (simp only: bucket_eligible) simp
  have c: "columns (DataFrame (columns t)) = columns ?dmin"
    by (simp add: DataFrame_def)
  obtain picks where
    res: "pick_hours True ?dmin d [0..<24] (DataFrame (columns t)) w =
            (Inr (True, Some \<lparr>columns = columns ?dmin,
                               rows = rows (DataFrame (columns t)) @ picks\<rparr>),
             w\<lparr>drawn := drawn w + length [0..<24]\<rparr>)"
    and len: "length picks = length [0..<24]"
    and mem: "\<forall>i<length [0..<24].
                picks ! i \<in> set (filter (\<lambda>r. hour_is ([0..<24] ! i) (StartDateTime r)) (rows ?dmin))"
    using pick_hours_accept [OF a c, of d w] by blast
  have mem': "\<forall>h<24. picks ! h \<in> set (filter (eligible d h) (rows t))"
  proof (intro allI impI)
    fix h :: nat assume h: "h < 24"
    then have "picks ! h \<in> set (filter (\<lambda>r. hour_is ([0..<24] ! h) (StartDateTime r)) (rows ?dmin))"
      using mem by simp
    moreover have "[0..<24] ! h = h" using h by simp
    ultimately show "picks ! h \<in> set (filter (eligible d h) (rows t))"
      by (simp only: bucket_eligible)
  qed
  have "pick_random_sample t d w =
          (Inr (True, Some \<lparr>columns = columns t, rows = picks\<rparr>), w\<lparr>drawn := drawn w + 24\<rparr>)"
    unfolding pick_random_sample_def Let_def using res dt by (simp add: DataFrame_def)
  then show ?thesis using len mem' by auto
qed

lemma pick_random_sample_not_datetimelike:
  "\<not> datetimelike t \<Longrightarrow> pick_random_sample t d w = (Inl AttributeError, w)"
  by (simp add: pick_random_sample_def upt_conv_Cons)

lemma first_empty_hour:
  assumes "\<exists>h<24. filter (eligible d h) (rows t) = []"
  obtains h0 where "h0 < 24" "filter (eligible d h0) (rows t) = []"
    "\<forall>h<h0. filter (eligible d h) (rows t) \<noteq> []"
proof -
  let ?P = "\<lambda>h. h < 24 \<and> filter (eligible d h) (rows t) = []"
  from assms have ex: "\<exists>h. ?P h" by blast
  have 1: "?P (LEAST h. ?P h)" using ex by (rule LeastI_ex)
  have 2: "\<forall>h<(LEAST h. ?P h). filter (eligible d h) (rows t) \<noteq> []"
  proof (intro allI impI)
    fix h assume lt: "h < (LEAST h. ?P h)"
    then have "\<not> ?P h" by (rule not_less_Least)
    moreover have "h < 24" using lt 1 by simp
    ultimately show "filter (eligible d h) (rows t) \<noteq> []" by simp
  qed
  show thesis using that [of "LEAST h. ?P h"] 1 2 by blast
qed

lemma pick_random_sample_cleaned_cases:
  assumes dt: "datetimelike t"
  shows "(\<exists>h<24. filter (eligible d h) (rows t) = []) \<and>
           fst (pick_random_sample t d w) = Inr (False, None)
         \<or> (\<forall>h<24. filter (eligible d h) (rows t) \<noteq> []) \<and>
           (\<exists>picks. pick_random_sample t d w =
              (Inr (True, Some \<lparr>columns = columns t, rows = picks\<rparr>),
               w\<lparr>drawn := drawn w + 24\<rparr>)
            \<and> length picks = 24
            \<and> (\<forall>h<24. picks ! h \<in> set (filter (eligible d h) (rows t))))"
proof (cases "\<exists>h<24. filter (eligible d h) (rows t) = []")
  case True
  then obtain h0 where "h0 < 24" "filter (eligible d h0) (rows t) = []"
    "\<forall>h<h0. filter (eligible d h) (rows t) \<noteq> []"
    by (rule first_empty_hour)
  then have "fst (pick_random_sample t d w) = Inr (False, None)"
    using pick_random_sample_reject [OF dt, of h0 d w] by simp
  then show ?thesis using True by blast
next
  case False
  then have full: "\<forall>h<24. filter (eligible d h) (rows t) \<noteq> []" by blast
  show ?thesis using full pick_random_sample_accept [OF dt full, of w] by blast
qed

text \<open>
  Claim C1. When \<^verbatim>\<open>pick_random_sample\<close> accepts a device on a table, what it returns is
  a frame under the table's header with exactly 24 rows; the row at position \<open>h\<close> (hours
  ascending from 0 to 23) is a row of the table, as it is there, whose device is the
  queried one, whose duration exceeds 60 and whose start time has hour \<open>h\<close>. This holds
  for every table, so for every cleaned table; the header of a cleaned table is the header
  of the table it was cleaned from.
\<close>

theorem pick_random_sample_accepted:
  assumes acc: "fst (pick_random_sample t device_id w) = Inr (True, res)"
  shows "\<exists>s. res = Some s \<and> columns s = columns t
           \<and> (\<forall>parse raw. clean parse raw = Inr t \<longrightarrow> columns s = columns raw)
           \<and> length (rows s) = 24
           \<and> (\<forall>h<24. rows s ! h \<in> set (rows t)
               \<and> AudioMothCode (rows s ! h) = Some device_id
               \<and> (\<exists>x. Duration (rows s ! h) = Some x \<and> 60 < x)
               \<and> (\<exists>ts. StartDateTime (rows s ! h) = Stamp ts \<and> dt_hour ts = h))"
proof -
  have dt: "datetimelike t"
  proof (rule ccontr)
    assume "\<not> datetimelike t"
    then show False using acc by (simp add: pick_random_sample_not_datetimelike)
  qed
  from pick_random_sample_cleaned_cases [OF dt, of device_id w] acc
  obtain picks where
    res: "pick_random_sample t device_id w =
            (Inr (True, Some \<lparr>columns = columns t, rows = picks\<rparr>),
             w\<lparr>drawn := drawn w + 24\<rparr>)"
    and len: "length picks = 24"
    and mem: "\<forall>h<24. picks ! h \<in> set (filter (eligible device_id h) (rows t))"
    by auto
  let ?s = "\<lparr>columns = columns t, rows = picks\<rparr>"
  have "res = Some ?s" using acc res by simp
  moreover have "columns ?s = columns t" by simp
  moreover have "\<forall>parse raw. clean parse raw = Inr t \<longrightarrow> columns ?s = columns raw"
    by (simp add: clean_frame(1))
  moreover have "length (rows ?s) = 24" using len by simp
  moreover have "\<forall>h<24. rows ?s ! h \<in> set (rows t)
               \<and> AudioMothCode (rows ?s ! h) = Some device_id
               \<and> (\<exists>x. Duration (rows ?s ! h) = Some x \<and> 60 < x)
               \<and> (\<exists>ts. StartDateTime (rows ?s ! h) = Stamp ts \<and> dt_hour ts = h)"
  proof (intro allI impI)
    fix h :: nat assume "h < 24"
    then have "picks ! h \<in> set (rows t)" "eligible device_id h (picks ! h)"
      using mem by auto
    then show "rows ?s ! h \<in> set (rows t)
               \<and> AudioMothCode (rows ?s ! h) = Some device_id
               \<and> (\<exists>x. Duration (rows ?s ! h) = Some x \<and> 60 < x)
               \<and> (\<exists>ts. StartDateTime (rows ?s ! h) = Stamp ts \<and> dt_hour ts = h)"
      by (simp add: eligible_iff)
  qed
  ultimately show ?thesis by blast
qed

text \<open>
  On a table whose StartDateTime column is a timestamp column, \<^verbatim>\<open>pick_random_sample\<close>
  returns \<^verbatim>\<open>(False, None)\<close> if and only if some hour from 0 to 23 has no eligible record.
  It then stops at the first such hour \<open>h0\<close>: the message names \<open>h0\<close>, exactly \<open>h0\<close> random
  numbers were drawn for the hours before it, and the rows chosen for those hours are not
  returned. A device without any row of its own and of sufficient duration is rejected at
  hour 0, before any draw.
\<close>

lemma pick_random_sample_rejected_iff:
  assumes dt: "datetimelike t"
  shows "(fst (pick_random_sample t device_id w) = Inr (False, None)
      \<longleftrightarrow> (\<exists>h<24. filter (eligible device_id h) (rows t) = []))
   \<and> (\<forall>h0<24.
         filter (eligible device_id h0) (rows t) = []
         \<and> (\<forall>h<h0. filter (eligible device_id h) (rows t) \<noteq> [])
         \<longrightarrow> pick_random_sample t device_id w =
               (Inr (False, None),
                w\<lparr>stdout := stdout w @
                      [device_id @ '' did not have any recordings for hour '' @ str h0
                         @ '' and is thus invalid.''],
                  drawn := drawn w + h0\<rparr>))
   \<and> (filter (\<lambda>r. AudioMothCode r = Some device_id
                    \<and> gt (Duration r) MINIMUM_RECORD_DURATION) (rows t) = []
        \<longrightarrow> pick_random_sample t device_id w =
               (Inr (False, None),
                w\<lparr>stdout := stdout w @
                      [device_id @ '' did not have any recordings for hour 0 and is thus invalid.'']\<rparr>))"
proof -
  have iff: "fst (pick_random_sample t device_id w) = Inr (False, None)
      \<longleftrightarrow> (\<exists>h<24. filter (eligible device_id h) (rows t) = [])"
    using pick_random_sample_cleaned_cases [OF dt, of device_id w] by auto
  have first: "\<forall>h0<24.
         filter (eligible device_id h0) (rows t) = []
         \<and> (\<forall>h<h0. filter (eligible device_id h) (rows t) \<noteq> [])
         \<longrightarrow> pick_random_sample t device_id w =
               (Inr (False, None),
                w\<lparr>stdout := stdout w @
                      [device_id @ '' did not have any recordings for hour '' @ str h0
                         @ '' and is thus invalid.''],
                  drawn := drawn w + h0\<rparr>)"
    using pick_random_sample_reject [OF dt] by blast
  have zero: "filter (\<lambda>r. AudioMothCode r = Some device_id
                    \<and> gt (Duration r) MINIMUM_RECORD_DURATION) (rows t) = []
        \<longrightarrow> pick_random_sample t device_id w =
               (Inr (False, None),
                w\<lparr>stdout := stdout w @
                      [device_id @ '' did not have any recordings for hour 0 and is thus invalid.'']\<rparr>)"
  proof
    assume none: "filter (\<lambda>r. AudioMothCode r = Some device_id
                    \<and> gt (Duration r) MINIMUM_RECORD_DURATION) (rows t) = []"
    have "filter (eligible device_id 0) (rows t) = []"
      using none by (auto simp: filter_empty_conv eligible_def)
    then show "pick_random_sample t device_id w =
               (Inr (False, None),
                w\<lparr>stdout := stdout w @
                      [device_id @ '' did not have any recordings for hour 0 and is thus invalid.'']\<rparr>)"
      using pick_random_sample_reject [OF dt, of 0 device_id w] by (simp add: str.simps)
  qed
  show ?thesis using iff first zero by blast
qed

lemma pick_random_sample_decision:
  "map_sum id fst (fst (pick_random_sample t d w)) =
     (if datetimelike t then Inr (\<forall>h<24. filter (eligible d h) (rows t) \<noteq> [])
      else Inl AttributeError)"
proof (cases "datetimelike t")
  case True
  then show ?thesis using pick_random_sample_cleaned_cases [OF True, of d w] by auto
next
  case False
  then show ?thesis by (simp add: pick_random_sample_not_datetimelike)
qed

text \<open>
  Claim C6. Whether \<^verbatim>\<open>pick_random_sample\<close> accepts or rejects a device (or raises) is
  the same in any two runs over the same table, whatever the random generator gives and
  whatever was printed before: the decision depends on the table and the device only.
\<close>

theorem sampler_decision_independent_of_draws:
  "map_sum id fst (fst (pick_random_sample t device_id w1)) =
   map_sum id fst (fst (pick_random_sample t device_id w2))"
  by (simp only: pick_random_sample_decision)


lemma pick_hours_same_buckets:
  assumes "\<forall>h\<in>set hs. select (\<lambda>r. hour_is h (StartDateTime r)) dmin
                        = select (\<lambda>r. hour_is h (StartDateTime r)) dmin'"
  shows "pick_hours b dmin d hs acc w = pick_hours b dmin' d hs acc w"
  using assms
proof (induction hs arbitrary: acc w)
  case Nil
  then show ?case by simp
next
  case (Cons h hs)
  then show ?case by (cases b) (simp_all add: Let_def split: prod.splits sum.splits)
qed

lemma hour_is_not_NaT: "hour_is h c \<Longrightarrow> c \<noteq> NaT"
  by (cases c) auto

lemma is_object_not_NaT: "is_object c \<Longrightarrow> c \<noteq> NaT"
  by (cases c) auto

lemma pick_random_sample_without_NaT:
  "pick_random_sample (select (\<lambda>r. StartDateTime r \<noteq> NaT) t) d w = pick_random_sample t d w"
proof -
  have dt: "datetimelike (select (\<lambda>r. StartDateTime r \<noteq> NaT) t) = datetimelike t"
    by (auto simp: datetimelike_def filter_empty_conv dest: is_object_not_NaT)
  have bucket: "select (\<lambda>r. hour_is h (StartDateTime r))
                  (select (\<lambda>r. gt (Duration r) MINIMUM_RECORD_DURATION)
                    (select (\<lambda>r. AudioMothCode r = Some d)
                      (select (\<lambda>r. StartDateTime r \<noteq> NaT) t)))
              = select (\<lambda>r. hour_is h (StartDateTime r))
                  (select (\<lambda>r. gt (Duration r) MINIMUM_RECORD_DURATION)
                    (select (\<lambda>r. AudioMothCode r = Some d) t))" for h
  proof -
    have "filter (\<lambda>r. StartDateTime r \<noteq> NaT \<and> AudioMothCode r = Some d
                     \<and> gt (Duration r) MINIMUM_RECORD_DURATION \<and> hour_is h (StartDateTime r)) (rows t)
        = filter (\<lambda>r. AudioMothCode r = Some d
                     \<and> gt (Duration r) MINIMUM_RECORD_DURATION \<and> hour_is h (StartDateTime r)) (rows t)"
      by (rule filter_cong) (auto dest: hour_is_not_NaT)
    then show ?thesis by (simp add: select_def)
  qed
  show ?thesis
    unfolding pick_random_sample_def Let_def dt
    by (simp add: pick_hours_same_buckets [OF ballI, OF bucket])
qed

text \<open>
  Claim C5. A row whose StartDateTime text the date parser refuses stays in the table: the
  conversion of line 106 raises nothing on a table as read from the CSV file, and whenever
  it returns, it has kept every row and given this one the missing value NaT (so has the
  whole Cleaner when the row has no error). With NaT the row is eligible for no device and
  no hour; dropping every NaT row from a table changes no result of
  \<^verbatim>\<open>pick_random_sample\<close>, so the row counts toward no hour's coverage; and no accepted
  sample contains it.
\<close>

theorem unparseable_start_time:
  assumes r: "r \<in> set (rows df)" and unparsed: "StartDateTime r = Text s"
      and refused: "parse s = None"
  shows "(unconverted df \<longrightarrow> (\<exists>t. convert_dates parse df = Inr t))
       \<and> (\<forall>t. convert_dates parse df = Inr t \<longrightarrow>
             r\<lparr>StartDateTime := NaT\<rparr> \<in> set (rows t) \<and> length (rows t) = length (rows df))
       \<and> (\<forall>t. Error r = None \<and> clean parse df = Inr t \<longrightarrow>
             r\<lparr>StartDateTime := NaT\<rparr> \<in> set (rows t))
       \<and> (\<forall>device_id hour. \<not> eligible device_id hour (r\<lparr>StartDateTime := NaT\<rparr>))
       \<and> (\<forall>t device_id w.
             pick_random_sample (select (\<lambda>r'. StartDateTime r' \<noteq> NaT) t) device_id w
               = pick_random_sample t device_id w)
       \<and> (\<forall>t device_id w smp.
             fst (pick_random_sample t device_id w) = Inr (True, Some smp)
               \<longrightarrow> r\<lparr>StartDateTime := NaT\<rparr> \<notin> set (rows smp))"
proof -
  let ?r = "r\<lparr>StartDateTime := NaT\<rparr>"
  have tot: "unconverted df \<longrightarrow> (\<exists>t. convert_dates parse df = Inr t)"
    by (simp add: convert_dates_unconverted)
  have a: "\<forall>t. convert_dates parse df = Inr t \<longrightarrow>
             ?r \<in> set (rows t) \<and> length (rows t) = length (rows df)"
  proof (intro allI impI)
    fix t assume conv: "convert_dates parse df = Inr t"
    show "?r \<in> set (rows t) \<and> length (rows t) = length (rows df)"
      using convert_dates_refused [OF conv r unparsed refused] convert_dates_frame(2) [OF conv]
      by simp
  qed
  have c: "\<forall>t. Error r = None \<and> clean parse df = Inr t \<longrightarrow> ?r \<in> set (rows t)"
  proof (intro allI impI, elim conjE)
    fix t assume noerr: "Error r = None" and cl: "clean parse df = Inr t"
    have "r \<in> set (rows (remove_erroneous_rows df))"
      using r noerr by (simp add: rows_remove_erroneous_rows)
    then show "?r \<in> set (rows t)"
      by (rule convert_dates_refused [OF cl [unfolded clean_def] _ unparsed refused])
  qed
  have d: "\<forall>device_id hour. \<not> eligible device_id hour ?r"
    by (simp add: eligible_def)
  have e: "\<forall>t device_id w.
             pick_random_sample (select (\<lambda>r'. StartDateTime r' \<noteq> NaT) t) device_id w
               = pick_random_sample t device_id w"
    by (simp add: pick_random_sample_without_NaT)
  have f: "\<forall>t device_id w smp.
             fst (pick_random_sample t device_id w) = Inr (True, Some smp)
               \<longrightarrow> ?r \<notin> set (rows smp)"
  proof (intro allI impI)
    fix t device_id w smp
    assume acc: "fst (pick_random_sample t device_id w) = Inr (True, Some smp)"
    have dt: "datetimelike t"
    proof (rule ccontr)
      assume "\<not> datetimelike t"
      then show False using acc by (simp add: pick_random_sample_not_datetimelike)
    qed
    from pick_random_sample_cleaned_cases [OF dt, of device_id w] acc
    obtain picks where
      res: "pick_random_sample t device_id w =
              (Inr (True, Some \<lparr>columns = columns t, rows = picks\<rparr>),
               w\<lparr>drawn := drawn w + 24\<rparr>)"
      and len: "length picks = 24"
      and mem: "\<forall>h<24. picks ! h \<in> set (filter (eligible device_id h) (rows t))"
      by auto
    have smp: "rows smp = picks" using acc res by auto
    show "?r \<notin> set (rows smp)"
    proof
      assume "?r \<in> set (rows smp)"
      then obtain h where "h < 24" "picks ! h = ?r"
        using smp len by (auto simp: in_set_conv_nth)
      then have "eligible device_id h ?r" using mem by auto
      then show False using d by simp
    qed
  qed
  show ?thesis using tot a c d e f by blast
qed

section \<open>Properties of the main program\<close>

lemma pick_random_sample_result:
  assumes dt: "datetimelike t"
  shows "(\<exists>h0<24. filter (eligible d h0) (rows t) = [] \<and>
            pick_random_sample t d w =
              (Inr (False, None),
               w\<lparr>stdout := stdout w @ [d @ '' did not have any recordings for hour '' @ str h0
                                         @ '' and is thus invalid.''],
                 drawn := drawn w + h0\<rparr>))
         \<or> (\<forall>h<24. filter (eligible d h) (rows t) \<noteq> []) \<and>
           (\<exists>picks. pick_random_sample t d w =
              (Inr (True, Some \<lparr>columns = columns t, rows = picks\<rparr>),
               w\<lparr>drawn := drawn w + 24\<rparr>)
            \<and> length picks = 24
            \<and> (\<forall>h<24. picks ! h \<in> set (filter (eligible d h) (rows t))))"
proof (cases "\<exists>h<24. filter (eligible d h) (rows t) = []")
  case True
  then obtain h0 where h0: "h0 < 24" "filter (eligible d h0) (rows t) = []"
    "\<forall>h<h0. filter (eligible d h) (rows t) \<noteq> []"
    by (rule first_empty_hour)
  show ?thesis
    using h0(1,2) pick_random_sample_reject [OF dt h0, of w] by blast
next
  case False
  then have full: "\<forall>h<24. filter (eligible d h) (rows t) \<noteq> []" by blast
  show ?thesis using full pick_random_sample_accept [OF dt full, of w] by blast
qed

lemma device_loop_missing_device:
  assumes dt: "datetimelike t" and missing: "None \<in> set devices"
  shows "fst (device_loop t devices df_output w) = Inl TypeError
       \<and> io_log (snd (device_loop t devices df_output w)) = io_log w
       \<and> stderr (snd (device_loop t devices df_output w)) = stderr w"
  using missing
proof (induction devices arbitrary: df_output w)
  case Nil
  then show ?case by simp
next
  case (Cons device devices)
  show ?case
  proof (cases device)
    case None
    then show ?thesis by simp
  next
    case (Some d)
    with Cons.prems have rest: "None \<in> set devices" by simp
    let ?w = "print (''Attempting to sample from Device ID '' @ d @ ''...'') w"
    have w: "io_log ?w = io_log w" "stderr ?w = stderr w" by (simp_all add: print_def)
    from pick_random_sample_result [OF dt, of d ?w]
    show ?thesis
    proof (elim disjE exE conjE)
      fix h0
      assume "pick_random_sample t d ?w =
              (Inr (False, None),
               ?w\<lparr>stdout := stdout ?w @ [d @ '' did not have any recordings for hour '' @ str h0
                                         @ '' and is thus invalid.''],
                 drawn := drawn ?w + h0\<rparr>)"
      then show ?thesis
        using Some Cons.IH [OF rest] w by (simp add: print_def)
    next
      fix picks
      assume "pick_random_sample t d ?w =
              (Inr (True, Some \<lparr>columns = columns t, rows = picks\<rparr>),
               ?w\<lparr>drawn := drawn ?w + 24\<rparr>)"
      then show ?thesis
        using Some Cons.IH [OF rest] w by (simp add: print_def)
    qed
  qed
qed

lemma unique_from_set: "set (unique_from seen xs) = set xs - set seen"
  by (induction seen xs rule: unique_from.induct) auto

lemma unique_from_distinct: "distinct (unique_from seen xs)"
  by (induction seen xs rule: unique_from.induct) (auto simp: unique_from_set)

lemma set_unique: "set (unique xs) = set xs"
  by (simp add: unique_def unique_from_set)

lemma distinct_unique: "distinct (unique xs)"
  by (simp add: unique_def unique_from_distinct)

lemma main_after_read_cleaned:
  assumes "clean (parse_date e) raw = Inr t"
  shows "main_after_read e output_file_path raw w =
     (case device_loop t (unique (map AudioMothCode (rows t))) (DataFrame (columns t))
             (print ''Device list created.'' (print ''Getting devices...''
               (print ''Strings converted!''
                 (print ''Converting strings to dates... (This will take some time.)''
                   (print ''Erroneous rows removed!''
                     (print ''Data loaded! Removing Erroneous Rows...'' w)))))) of
        (Inl x, w7) \<Rightarrow> (Inl x, w7)
      | (Inr df_output, w7) \<Rightarrow>
          (case to_csv e output_file_path df_output of
             Some msg \<Rightarrow>
               (Inr False,
                print_stderr (''Error when writing to CSV File. See: '' @ msg)
                  ((print ''Done. Outputting'' (print ''Samples ready, outputting...'' w7))
                     \<lparr>io_log := io_log w7 @ [ToCsv output_file_path df_output]\<rparr>))
           | None \<Rightarrow>
               (Inr True,
                (print ''Done. Outputting'' (print ''Samples ready, outputting...'' w7))
                  \<lparr>io_log := io_log w7 @ [ToCsv output_file_path df_output]\<rparr>)))"
  using assms
  by (simp add: main_after_read_def Let_def clean_def print_def
        split: prod.splits sum.splits option.splits)

lemma main_after_read_conversion_error:
  assumes "clean (parse_date e) raw = Inl x"
  shows "fst (main_after_read e output_file_path raw w) = Inl x"
  using assms by (simp add: main_after_read_def Let_def clean_def)

lemma main_after_read_missing_device:
  assumes cleaned: "clean (parse_date e) raw = Inr t" and dt: "datetimelike t"
      and r: "r \<in> set (rows t)" and none: "AudioMothCode r = None"
  shows "fst (main_after_read e output_file_path raw w) = Inl TypeError
       \<and> io_log (snd (main_after_read e output_file_path raw w)) = io_log w
       \<and> stderr (snd (main_after_read e output_file_path raw w)) = stderr w"
proof -
  let ?ds = "unique (map AudioMothCode (rows t))"
  let ?w = "print ''Device list created.'' (print ''Getting devices...''
             (print ''Strings converted!''
               (print ''Converting strings to dates... (This will take some time.)''
                 (print ''Erroneous rows removed!''
                   (print ''Data loaded! Removing Erroneous Rows...'' w)))))"
  have "None \<in> set (map AudioMothCode (rows t))" using r none by force
  then have missing: "None \<in> set ?ds" by (simp only: set_unique)
  have w: "io_log ?w = io_log w" "stderr ?w = stderr w" by (simp_all add: print_def)
  obtain w' where loop: "device_loop t ?ds (DataFrame (columns t)) ?w = (Inl TypeError, w')"
    and w': "io_log w' = io_log w" "stderr w' = stderr w"
    using device_loop_missing_device [OF dt missing, of "DataFrame (columns t)" ?w] w
    by (cases "device_loop t ?ds (DataFrame (columns t)) ?w") auto
  show ?thesis
    unfolding main_after_read_cleaned [OF cleaned] loop using w' by simp
qed

lemma main_after_paths:
  assumes "get_file_to_open e w = (Inr (Some input_file_path), w1)"
      and "get_file_output_path e w1 = (Inr (Some output_file_path), w2)"
  shows "main e w =
           (case read_csv e input_file_path of
              Inl msg \<Rightarrow>
                (Inr False,
                 print_stderr (''Error when opening CSV File. See: '' @ msg)
                   (w2\<lparr>io_log := io_log w2 @ [ReadCsv input_file_path]\<rparr>))
            | Inr imported_data \<Rightarrow>
                main_after_read e output_file_path imported_data
                  (w2\<lparr>io_log := io_log w2 @ [ReadCsv input_file_path]\<rparr>))"
  using assms by (simp add: main_def Let_def)

text \<open>
  The loop over the devices when no identifier is missing: it ends, and the Output Table is
  the blocks of 24 rows of the accepted devices (those with every hour covered), in the
  order of the device list, under the header of the table.
\<close>

lemma device_loop_present:
  assumes dt: "datetimelike t" and present: "None \<notin> set devices"
      and cols: "columns df_output = columns t"
  shows "\<exists>blocks w'.
           device_loop t devices df_output w =
             (Inr \<lparr>columns = columns t, rows = rows df_output @ concat blocks\<rparr>, w')
         \<and> io_log w' = io_log w \<and> stderr w' = stderr w \<and> stdin w' = stdin w
         \<and> list_all2
               (\<lambda>b dev. length b = 24 \<and>
                  (\<exists>d. dev = Some d \<and> (\<forall>h<24. b ! h \<in> set (filter (eligible d h) (rows t)))))
               blocks
               (filter (\<lambda>dev. \<exists>d. dev = Some d
                          \<and> (\<forall>h<24. filter (eligible d h) (rows t) \<noteq> [])) devices)"
  using present cols
proof (induction devices arbitrary: df_output w)
  case Nil
  have "df_output = \<lparr>columns = columns t, rows = rows df_output\<rparr>"
    using Nil.prems(2) by simp
  then have "device_loop t [] df_output w
               = (Inr \<lparr>columns = columns t, rows = rows df_output @ concat []\<rparr>, w)"
    by simp
  then show ?case by (intro exI [of _ "[]"] exI [of _ w]) simp
next
  case (Cons device devices)
  from Cons.prems(1) obtain d where d: "device = Some d" and rest: "None \<notin> set devices"
    by (cases device) auto
  let ?w = "print (''Attempting to sample from Device ID '' @ d @ ''...'') w"
  from pick_random_sample_result [OF dt, of d ?w]
  show ?case
  proof (elim disjE exE conjE)
    fix h0
    assume h0: "h0 < 24" and empty: "filter (eligible d h0) (rows t) = []"
      and res: "pick_random_sample t d ?w =
              (Inr (False, None),
               ?w\<lparr>stdout := stdout ?w @ [d @ '' did not have any recordings for hour '' @ str h0
                                         @ '' and is thus invalid.''],
                 drawn := drawn ?w + h0\<rparr>)"
    let ?w' = "print ''Device is invalid.''
                 (?w\<lparr>stdout := stdout ?w @ [d @ '' did not have any recordings for hour '' @ str h0
                                         @ '' and is thus invalid.''],
                    drawn := drawn ?w + h0\<rparr>)"
    have step: "device_loop t (device # devices) df_output w = device_loop t devices df_output ?w'"
      using d res by simp
    have notcov: "\<not> (\<forall>h<24. filter (eligible d h) (rows t) \<noteq> [])"
      using h0 empty by blast
    from Cons.IH [OF rest Cons.prems(2), of ?w'] obtain blocks w' where
      IH: "device_loop t devices df_output ?w' =
             (Inr \<lparr>columns = columns t, rows = rows df_output @ concat blocks\<rparr>, w')"
        "io_log w' = io_log ?w'" "stderr w' = stderr ?w'" "stdin w' = stdin ?w'"
        "list_all2
               (\<lambda>b dev. length b = 24 \<and>
                  (\<exists>d. dev = Some d \<and> (\<forall>h<24. b ! h \<in> set (filter (eligible d h) (rows t)))))
               blocks
               (filter (\<lambda>dev. \<exists>d. dev = Some d
                          \<and> (\<forall>h<24. filter (eligible d h) (rows t) \<noteq> [])) devices)"
      by blast
    have "filter (\<lambda>dev. \<exists>d. dev = Some d
                   \<and> (\<forall>h<24. filter (eligible d h) (rows t) \<noteq> [])) (device # devices)
          = filter (\<lambda>dev. \<exists>d. dev = Some d
                   \<and> (\<forall>h<24. filter (eligible d h) (rows t) \<noteq> [])) devices"
      using d notcov by simp
    then show ?thesis
      using IH(2-5) unfolding step IH(1)
      by (intro exI [of _ blocks] exI [of _ w']) (simp add: print_def)
  next
    fix picks
    assume cov: "\<forall>h<24. filter (eligible d h) (rows t) \<noteq> []"
      and res: "pick_random_sample t d ?w =
              (Inr (True, Some \<lparr>columns = columns t, rows = picks\<rparr>),
               ?w\<lparr>drawn := drawn ?w + 24\<rparr>)"
      and len: "length picks = 24"
      and mem: "\<forall>h<24. picks ! h \<in> set (filter (eligible d h) (rows t))"
    let ?w' = "print ''Sample picked!'' (?w\<lparr>drawn := drawn ?w + 24\<rparr>)"
    let ?out = "append_df df_output \<lparr>columns = columns t, rows = picks\<rparr>"
    have out: "?out = \<lparr>columns = columns t, rows = rows df_output @ picks\<rparr>"
      using Cons.prems(2) by (simp add: append_df_def)
    have step: "device_loop t (device # devices) df_output w = device_loop t devices ?out ?w'"
      using d res by simp
    have cols': "columns ?out = columns t" using out by simp
    from Cons.IH [OF rest cols', of ?w'] obtain blocks w' where
      IH: "device_loop t devices ?out ?w' =
             (Inr \<lparr>columns = columns t, rows = rows ?out @ concat blocks\<rparr>, w')"
        "io_log w' = io_log ?w'" "stderr w' = stderr ?w'" "stdin w' = stdin ?w'"
        "list_all2
               (\<lambda>b dev. length b = 24 \<and>
                  (\<exists>d. dev = Some d \<and> (\<forall>h<24. b ! h \<in> set (filter (eligible d h) (rows t)))))
               blocks
               (filter (\<lambda>dev. \<exists>d. dev = Some d
                          \<and> (\<forall>h<24. filter (eligible d h) (rows t) \<noteq> [])) devices)"
      by blast
    have rows: "rows ?out @ concat blocks = rows df_output @ concat (picks # blocks)"
      using out by simp
    have "filter (\<lambda>dev. \<exists>d. dev = Some d
                   \<and> (\<forall>h<24. filter (eligible d h) (rows t) \<noteq> [])) (device # devices)
          = device # filter (\<lambda>dev. \<exists>d. dev = Some d
                   \<and> (\<forall>h<24. filter (eligible d h) (rows t) \<noteq> [])) devices"
      using d cov by simp
    then show ?thesis
      using IH(2-5) d len mem unfolding step IH(1) rows
      by (intro exI [of _ "picks # blocks"] exI [of _ w']) (simp add: print_def)
  qed
qed


lemma length_concat_blocks:
  "\<forall>b\<in>set blocks. length b = n \<Longrightarrow> length (concat blocks) = n * length blocks"
  by (induction blocks) auto

lemma main_after_read_present:
  assumes cleaned: "clean (parse_date e) raw = Inr t" and dt: "datetimelike t"
      and present: "None \<notin> set (map AudioMothCode (rows t))"
  shows "\<exists>blocks.
           list_all2
             (\<lambda>b dev. length b = 24 \<and>
                (\<exists>d. dev = Some d \<and> (\<forall>h<24. b ! h \<in> set (filter (eligible d h) (rows t)))))
             blocks
             (filter (\<lambda>dev. \<exists>d. dev = Some d
                        \<and> (\<forall>h<24. filter (eligible d h) (rows t) \<noteq> []))
                (unique (map AudioMothCode (rows t))))
         \<and> fst (main_after_read e output_file_path raw w)
             = Inr (to_csv e output_file_path \<lparr>columns = columns raw, rows = concat blocks\<rparr> = None)
         \<and> io_log (snd (main_after_read e output_file_path raw w))
             = io_log w @ [ToCsv output_file_path \<lparr>columns = columns raw, rows = concat blocks\<rparr>]
         \<and> stderr (snd (main_after_read e output_file_path raw w))
             = stderr w @
               (case to_csv e output_file_path \<lparr>columns = columns raw, rows = concat blocks\<rparr> of
                  None \<Rightarrow> []
                | Some msg \<Rightarrow> [''Error when writing to CSV File. See: '' @ msg])"
proof -
  let ?ds = "unique (map AudioMothCode (rows t))"
  let ?w = "print ''Device list created.'' (print ''Getting devices...''
             (print ''Strings converted!''
               (print ''Converting strings to dates... (This will take some time.)''
                 (print ''Erroneous rows removed!''
                   (print ''Data loaded! Removing Erroneous Rows...'' w)))))"
  have none: "None \<notin> set ?ds" using present by (simp only: set_unique) simp
  have cols: "columns (DataFrame (columns t)) = columns t" by (simp add: DataFrame_def)
  have w: "io_log ?w = io_log w" "stderr ?w = stderr w" by (simp_all add: print_def)
  from device_loop_present [OF dt none cols, of ?w] obtain blocks w' where
    loop: "device_loop t ?ds (DataFrame (columns t)) ?w =
             (Inr \<lparr>columns = columns t, rows = rows (DataFrame (columns t)) @ concat blocks\<rparr>, w')"
    and w': "io_log w' = io_log ?w" "stderr w' = stderr ?w"
    and blocks: "list_all2
             (\<lambda>b dev. length b = 24 \<and>
                (\<exists>d. dev = Some d \<and> (\<forall>h<24. b ! h \<in> set (filter (eligible d h) (rows t)))))
             blocks
             (filter (\<lambda>dev. \<exists>d. dev = Some d
                        \<and> (\<forall>h<24. filter (eligible d h) (rows t) \<noteq> [])) ?ds)"
    by blast
  let ?out = "\<lparr>columns = columns raw, rows = concat blocks\<rparr>"
  have loop': "device_loop t ?ds (DataFrame (columns t)) ?w = (Inr ?out, w')"
    using loop by (simp add: DataFrame_def clean_frame(1) [OF cleaned])
  show ?thesis
    using blocks w w' unfolding main_after_read_cleaned [OF cleaned] loop'
    by (intro exI [of _ blocks]) (simp add: print_def print_stderr_def split: option.splits)
qed

lemma main_usage_error:
  assumes "USE_COMMAND_LINE_ARGS e" and "length (argv e) \<noteq> 2"
  shows "main e w =
           (Inr False,
            print_stderr
              ''Incorrect usage: ./stratifiedRandomSampler.py csvFilePathInput csvFileOutput'' w)"
  using assms by (simp add: main_def get_file_to_open_def)

lemma main_argument_paths:
  assumes "USE_COMMAND_LINE_ARGS e" and "length (argv e) = 2"
  shows "get_file_to_open e w = (Inr (Some (argv e ! 0)), w)"
    and "get_file_output_path e w = (Inr (Some (argv e ! 1)), w)"
  using assms by (simp_all add: get_file_to_open_def get_file_output_path_def)

lemma main_read_error:
  assumes "get_file_to_open e w = (Inr (Some input_file_path), w1)"
      and "get_file_output_path e w1 = (Inr (Some output_file_path), w2)"
      and "read_csv e input_file_path = Inl msg"
  shows "main e w =
           (Inr False,
            w2\<lparr>io_log := io_log w2 @ [ReadCsv input_file_path],
               stderr := stderr w2 @ [''Error when opening CSV File. See: '' @ msg]\<rparr>)"
  using main_after_paths [OF assms(1,2)] assms(3) by (simp add: print_stderr_def)

lemma main_completes:
  assumes inp: "get_file_to_open e w = (Inr (Some input_file_path), w1)"
      and outp: "get_file_output_path e w1 = (Inr (Some output_file_path), w2)"
      and rd: "read_csv e input_file_path = Inr raw"
      and cleaned: "clean (parse_date e) raw = Inr t" and dt: "datetimelike t"
      and present: "None \<notin> set (map AudioMothCode (rows t))"
  shows "\<exists>df_output.
           columns df_output = columns raw
         \<and> length (rows df_output) =
             24 * length (filter (\<lambda>dev. \<exists>d. dev = Some d
                        \<and> (\<forall>h<24. filter (eligible d h) (rows t) \<noteq> []))
                (unique (map AudioMothCode (rows t))))
         \<and> fst (main e w) = Inr (to_csv e output_file_path df_output = None)
         \<and> io_log (snd (main e w))
             = io_log w2 @ [ReadCsv input_file_path, ToCsv output_file_path df_output]
         \<and> stderr (snd (main e w))
             = stderr w2 @
               (case to_csv e output_file_path df_output of
                  None \<Rightarrow> []
                | Some msg \<Rightarrow> [''Error when writing to CSV File. See: '' @ msg])"
proof -
  let ?w = "w2\<lparr>io_log := io_log w2 @ [ReadCsv input_file_path]\<rparr>"
  let ?acc = "filter (\<lambda>dev. \<exists>d. dev = Some d
                        \<and> (\<forall>h<24. filter (eligible d h) (rows t) \<noteq> []))
                (unique (map AudioMothCode (rows t)))"
  have run: "main e w = main_after_read e output_file_path raw ?w"
    using main_after_paths [OF inp outp] rd by simp
  from main_after_read_present [OF cleaned dt present, of output_file_path ?w] obtain blocks where
    blocks: "list_all2
             (\<lambda>b dev. length b = 24 \<and>
                (\<exists>d. dev = Some d \<and> (\<forall>h<24. b ! h \<in> set (filter (eligible d h) (rows t)))))
             blocks ?acc"
    and res: "fst (main_after_read e output_file_path raw ?w)
             = Inr (to_csv e output_file_path \<lparr>columns = columns raw, rows = concat blocks\<rparr> = None)"
      "io_log (snd (main_after_read e output_file_path raw ?w))
             = io_log ?w @ [ToCsv output_file_path \<lparr>columns = columns raw, rows = concat blocks\<rparr>]"
      "stderr (snd (main_after_read e output_file_path raw ?w))
             = stderr ?w @
               (case to_csv e output_file_path \<lparr>columns = columns raw, rows = concat blocks\<rparr> of
                  None \<Rightarrow> []
                | Some msg \<Rightarrow> [''Error when writing to CSV File. See: '' @ msg])"
    by blast
  have len: "length blocks = length ?acc" using blocks by (rule list_all2_lengthD)
  have "\<forall>b\<in>set blocks. length b = 24"
    using blocks by (auto simp: list_all2_conv_all_nth in_set_conv_nth)
  then have "length (concat blocks) = 24 * length blocks"
    by (rule length_concat_blocks)
  then have "length (concat blocks) = 24 * length ?acc"
    using len by (simp only:)
  then show ?thesis
    using res unfolding run
    by (intro exI [of _ "\<lparr>columns = columns raw, rows = concat blocks\<rparr>"]) simp
qed

text \<open>On an object column the first device that has an identifier makes line 43 raise.\<close>

lemma device_loop_object_column:
  assumes "\<not> datetimelike t"
  shows "device_loop t (Some d # devices) df_output w =
           (Inl AttributeError, print (''Attempting to sample from Device ID '' @ d @ ''...'') w)"
  using assms by (simp add: pick_random_sample_not_datetimelike)

lemma main_end_of_input:
  assumes "\<not> USE_COMMAND_LINE_ARGS e" and "stdin w = []"
  shows "fst (main e w) = Inl EOFError"
  using assms by (simp add: main_def get_file_to_open_def input_def)

text \<open>
  Claim C10. Whenever the paths were acquired, the CSV file was read, the Cleaner gave a
  table with a timestamp column and this table has a row without device identifier, the
  list of devices of \<^verbatim>\<open>main\<close> holds the missing value, and the loop over the devices raises
  TypeError when it builds the progress message for it: \<^verbatim>\<open>main\<close> returns neither True nor
  False, nothing is written on the error stream, and after the read no file operation is
  attempted, so no output is written. The example run below is such an input.
\<close>

theorem main_raises_on_missing_device:
  assumes inp: "get_file_to_open e w = (Inr (Some input_file_path), w1)"
      and outp: "get_file_output_path e w1 = (Inr (Some output_file_path), w2)"
      and rd: "read_csv e input_file_path = Inr raw"
      and cleaned: "clean (parse_date e) raw = Inr t" and dt: "datetimelike t"
      and r: "r \<in> set (rows t)"
      and none: "AudioMothCode r = None"
  shows "None \<in> set (unique (map AudioMothCode (rows t)))
       \<and> fst (main e w) = Inl TypeError
       \<and> io_log (snd (main e w)) = io_log w2 @ [ReadCsv input_file_path]
       \<and> stderr (snd (main e w)) = stderr w2"
proof -
  let ?w = "w2\<lparr>io_log := io_log w2 @ [ReadCsv input_file_path]\<rparr>"
  have "None \<in> set (map AudioMothCode (rows t))"
    using r none by force
  then have enumerated: "None \<in> set (unique (map AudioMothCode (rows t)))"
    by (simp only: set_unique)
  have run: "main e w = main_after_read e output_file_path raw ?w"
    using main_after_paths [OF inp outp] rd by simp
  show ?thesis
    using enumerated
      main_after_read_missing_device [OF cleaned dt r none, of output_file_path ?w]
    unfolding run by simp
qed

section \<open>The example runs\<close>

lemmas example_defs = example_table_def example_world_def full_day_def recording_def
  example_parse_def example_columns_def missing_id_table_def missing_id_env_def args_env_def
  one_arg_env_def mixed_parse_def mixed_table_def mixed_env_def

lemmas path_defs = get_file_to_open_def get_file_output_path_def input_def print_def
  print_stderr_def

lemmas sampler_defs = pick_random_sample_def select_def gt_def MINIMUM_RECORD_DURATION_def
  datetimelike_def DataFrame_def upt_conv_Cons dt_hour_def sample_def append_df_def Let_def
  print_def str.simps eligible_def

lemma example_clean: "clean example_parse example_table = Inr example_cleaned"
  by code_simp

lemma example_convert:
  "convert_dates example_parse example_table =
     Inr (example_table\<lparr>rows := map (\<lambda>r. r\<lparr>StartDateTime := stamp_cell example_parse (StartDateTime r)\<rparr>)
                                    (rows example_table)\<rparr>)"
  by code_simp

lemma missing_id_clean: "clean example_parse missing_id_table = Inr missing_id_cleaned"
  by code_simp

lemma mixed_clean: "clean mixed_parse mixed_table = Inr mixed_cleaned"
  by code_simp

lemma example_timestamps: "datetimelike example_cleaned"
  by code_simp

lemma missing_id_timestamps: "datetimelike missing_id_cleaned"
  by code_simp

lemma example_D1_accepted:
  "fst (pick_random_sample example_cleaned ''D1'' example_world) =
     Inr (True, Some \<lparr>columns = example_columns, rows = take 24 (rows example_cleaned)\<rparr>)"
  by (simp add: sampler_defs example_cleaned_def example_world_def)


text \<open>Claim C1 on the example: device D1 is accepted with its 24 two-minute recordings.\<close>

theorem pick_random_sample_accepted_witness:
  "clean example_parse example_table = Inr example_cleaned
   \<and> fst (pick_random_sample example_cleaned ''D1'' example_world) =
       Inr (True, Some \<lparr>columns = example_columns, rows = take 24 (rows example_cleaned)\<rparr>)
   \<and> (\<exists>s. Some \<lparr>columns = example_columns, rows = take 24 (rows example_cleaned)\<rparr> = Some s
          \<and> columns s = columns example_cleaned \<and> columns s = columns example_table
          \<and> length (rows s) = 24
          \<and> (\<forall>h<24. rows s ! h \<in> set (rows example_cleaned)
                \<and> AudioMothCode (rows s ! h) = Some ''D1''
                \<and> (\<exists>x. Duration (rows s ! h) = Some x \<and> 60 < x)
                \<and> (\<exists>ts. StartDateTime (rows s ! h) = Stamp ts \<and> dt_hour ts = h)))"
proof -
  note acc = example_D1_accepted
  from pick_random_sample_accepted [OF acc] obtain s where
    s: "Some \<lparr>columns = example_columns, rows = take 24 (rows example_cleaned)\<rparr> = Some s"
      "columns s = columns example_cleaned"
      "\<forall>parse raw. clean parse raw = Inr example_cleaned \<longrightarrow> columns s = columns raw"
      "length (rows s) = 24"
      "\<forall>h<24. rows s ! h \<in> set (rows example_cleaned)
                \<and> AudioMothCode (rows s ! h) = Some ''D1''
                \<and> (\<exists>x. Duration (rows s ! h) = Some x \<and> 60 < x)
                \<and> (\<exists>ts. StartDateTime (rows s ! h) = Stamp ts \<and> dt_hour ts = h)"
    by blast
  have "columns s = columns example_table" using s(3) example_clean by blast
  then show ?thesis using example_clean acc s(1,2,4,5) by blast
qed

text \<open>On the example, device D2 is rejected at hour 2 after two draws, and a device without
  rows at hour 0.\<close>

lemma pick_random_sample_rejected_example:
  "(\<exists>h<24. filter (eligible ''D2'' h) (rows example_cleaned) = [])
   \<and> fst (pick_random_sample example_cleaned ''D2'' example_world)
       = Inr (False, None)
   \<and> pick_random_sample example_cleaned ''D2'' example_world =
       (Inr (False, None),
        example_world\<lparr>stdout := [''D2 did not have any recordings for hour 2 and is thus invalid.''],
                      drawn := 2\<rparr>)
   \<and> pick_random_sample example_cleaned ''D3'' example_world =
       (Inr (False, None),
        example_world\<lparr>stdout := [''D3 did not have any recordings for hour 0 and is thus invalid.'']\<rparr>)"
proof -
  let ?t = "example_cleaned"
  have e0: "filter (eligible ''D2'' 0) (rows ?t) \<noteq> []"
    by code_simp
  have e1: "filter (eligible ''D2'' 1) (rows ?t) \<noteq> []"
    by code_simp
  have e2: "filter (eligible ''D2'' 2) (rows ?t) = []"
    by code_simp
  have before: "\<forall>h<2. filter (eligible ''D2'' h) (rows ?t) \<noteq> []"
  proof (intro allI impI)
    fix h :: nat assume "h < 2"
    then have "h = 0 \<or> h = 1" by auto
    then show "filter (eligible ''D2'' h) (rows ?t) \<noteq> []" using e0 e1 by auto
  qed
  have d3: "filter (\<lambda>r. AudioMothCode r = Some ''D3''
                    \<and> gt (Duration r) MINIMUM_RECORD_DURATION) (rows ?t) = []"
    by code_simp
  have ex: "\<exists>h<24. filter (eligible ''D2'' h) (rows ?t) = []"
    using e2 by (intro exI [of _ 2]) simp
  note D2 = pick_random_sample_rejected_iff [OF example_timestamps, of "''D2''" example_world]
  note D3 = pick_random_sample_rejected_iff [OF example_timestamps, of "''D3''" example_world]
  have rej: "fst (pick_random_sample ?t ''D2'' example_world) = Inr (False, None)"
    using D2 ex by blast
  have "(2::nat) < 24" by simp
  then have full: "pick_random_sample ?t ''D2'' example_world =
       (Inr (False, None),
        example_world\<lparr>stdout := stdout example_world @
              [''D2'' @ '' did not have any recordings for hour '' @ str 2
                 @ '' and is thus invalid.''],
          drawn := drawn example_world + 2\<rparr>)"
    using D2 e2 before by blast
  have zero: "pick_random_sample ?t ''D3'' example_world =
       (Inr (False, None),
        example_world\<lparr>stdout := stdout example_world @
              [''D3'' @ '' did not have any recordings for hour 0 and is thus invalid.'']\<rparr>)"
    using D3 d3 by blast
  show ?thesis
    using ex rej full zero by (simp add: example_world_def str.simps)
qed

text \<open>Claim C3 on the example: a good row is kept once, the row with an error is
  removed, and the table gets shorter.\<close>

theorem remove_erroneous_rows_exact_witness:
  "Error (recording (Some ''D2'') None (Some 90) ''2021-03-05 00:30:00'') = None
   \<and> count_list (rows (remove_erroneous_rows example_table))
         (recording (Some ''D2'') None (Some 90) ''2021-03-05 00:30:00'') = 1
   \<and> recording (Some ''D1'') (Some ''corrupt'') (Some 300) ''2021-03-05 06:30:00''
         \<in> set (rows example_table)
   \<and> recording (Some ''D1'') (Some ''corrupt'') (Some 300) ''2021-03-05 06:30:00''
         \<notin> set (rows (remove_erroneous_rows example_table))
   \<and> length (rows (remove_erroneous_rows example_table)) < length (rows example_table)
   \<and> unconverted example_table
   \<and> (\<exists>t. clean example_parse example_table = Inr t
          \<and> length (rows t) < length (rows example_table))"
proof -
  let ?good = "recording (Some ''D2'') None (Some 90) ''2021-03-05 00:30:00''"
  let ?bad = "recording (Some ''D1'') (Some ''corrupt'') (Some 300) ''2021-03-05 06:30:00''"
  note T = remove_erroneous_rows_exact [of example_table example_parse]
  have good: "Error ?good = None" by (simp add: recording_def)
  have cnt: "count_list (rows example_table) ?good = 1"
    by (simp add: example_table_def full_day_def recording_def)
  have bad_in: "?bad \<in> set (rows example_table)"
    by (simp add: example_table_def)
  have bad: "Error ?bad \<noteq> None" by (simp add: recording_def)
  have 1: "count_list (rows (remove_erroneous_rows example_table)) ?good = 1"
    using T good cnt by simp
  have 2: "?bad \<notin> set (rows (remove_erroneous_rows example_table))"
    using T bad by simp
  have ne: "\<not> (\<forall>r\<in>set (rows example_table). Error r = None)"
    using bad_in bad by auto
  have 3: "length (rows (remove_erroneous_rows example_table)) < length (rows example_table)"
    using T ne by (meson le_neq_implies_less)
  have raw: "unconverted example_table" by code_simp
  then obtain t where t: "clean example_parse example_table = Inr t" using T by blast
  then have "length (rows t) < length (rows example_table)"
    using T ne by (meson le_neq_implies_less)
  then have 4: "\<exists>t. clean example_parse example_table = Inr t
          \<and> length (rows t) < length (rows example_table)"
    using t by blast
  show ?thesis using good 1 bad_in 2 3 raw 4 by simp
qed

text \<open>Claim C5 on the example: the recording whose start time is no date.\<close>

theorem unparseable_start_time_witness:
  "unconverted example_table
   \<and> (\<exists>t. convert_dates example_parse example_table = Inr t
        \<and> (recording (Some ''D1'') None (Some 300) ''not a date'')\<lparr>StartDateTime := NaT\<rparr>
              \<in> set (rows t)
        \<and> length (rows t) = length (rows example_table))
   \<and> (recording (Some ''D1'') None (Some 300) ''not a date'')\<lparr>StartDateTime := NaT\<rparr>
      \<in> set (rows example_cleaned)
   \<and> \<not> eligible ''D1'' 5 ((recording (Some ''D1'') None (Some 300) ''not a date'')\<lparr>StartDateTime := NaT\<rparr>)
   \<and> pick_random_sample (select (\<lambda>r'. StartDateTime r' \<noteq> NaT) example_cleaned) ''D1'' example_world
       = pick_random_sample example_cleaned ''D1'' example_world
   \<and> (recording (Some ''D1'') None (Some 300) ''not a date'')\<lparr>StartDateTime := NaT\<rparr>
      \<notin> set (take 24 (rows example_cleaned))"
proof -
  let ?r = "recording (Some ''D1'') None (Some 300) ''not a date''"
  have mem: "?r \<in> set (rows example_table)" by (simp add: example_table_def)
  have unparsed: "StartDateTime ?r = Text ''not a date''" by (simp add: recording_def)
  have refused: "example_parse ''not a date'' = None" by (simp add: example_parse_def)
  have noerr: "Error ?r = None" by (simp add: recording_def)
  have raw: "unconverted example_table" by code_simp
  note T = unparseable_start_time [where r = ?r and df = example_table
      and s = "''not a date''" and parse = example_parse, OF mem unparsed refused]
  from T raw obtain t where t: "convert_dates example_parse example_table = Inr t" by blast
  then have conv: "\<exists>t. convert_dates example_parse example_table = Inr t
        \<and> ?r\<lparr>StartDateTime := NaT\<rparr> \<in> set (rows t)
        \<and> length (rows t) = length (rows example_table)"
    using T by blast
  have cl: "?r\<lparr>StartDateTime := NaT\<rparr> \<in> set (rows example_cleaned)"
    using T noerr example_clean by blast
  have "?r\<lparr>StartDateTime := NaT\<rparr>
          \<notin> set (rows \<lparr>columns = example_columns, rows = take 24 (rows example_cleaned)\<rparr>)"
    using T example_D1_accepted by blast
  then show ?thesis using T raw conv cl by simp
qed

text \<open>Claim C10 on the example: the run over the table whose first row has no device
  identifier.\<close>

theorem main_raises_on_missing_device_witness:
  "clean (parse_date missing_id_env) missing_id_table = Inr missing_id_cleaned
   \<and> None \<in> set (unique (map AudioMothCode (rows missing_id_cleaned)))
   \<and> fst (main missing_id_env example_world) = Inl TypeError
   \<and> io_log (snd (main missing_id_env example_world)) = [ReadCsv ''in.csv'']
   \<and> stderr (snd (main missing_id_env example_world)) = []"
proof -
  let ?w1 = "example_world\<lparr>stdout := [''Enter input file path: ''], stdin := [''out.csv'']\<rparr>"
  let ?w2 = "example_world\<lparr>stdout := [''Enter input file path: '', ''Enter output file path: ''],
               stdin := []\<rparr>"
  let ?r = "\<lparr>AudioMothCode = None, Error = None, Duration = Some 120,
             StartDateTime = Stamp 1614904200, payload = [''rec.wav'']\<rparr>"
  have inp: "get_file_to_open missing_id_env example_world = (Inr (Some ''in.csv''), ?w1)"
    by (simp add: path_defs missing_id_env_def example_world_def)
  have outp: "get_file_output_path missing_id_env ?w1 = (Inr (Some ''out.csv''), ?w2)"
    by (simp add: path_defs missing_id_env_def example_world_def)
  have rd: "read_csv missing_id_env ''in.csv'' = Inr missing_id_table"
    by (simp add: missing_id_env_def)
  have p: "parse_date missing_id_env = example_parse" by (simp add: missing_id_env_def)
  have cleaned: "clean (parse_date missing_id_env) missing_id_table = Inr missing_id_cleaned"
    unfolding p by (rule missing_id_clean)
  have r: "?r \<in> set (rows missing_id_cleaned)"
    by (simp add: missing_id_cleaned_def)
  have none: "AudioMothCode ?r = None" by simp
  show ?thesis
    using cleaned
      main_raises_on_missing_device [OF inp outp rd cleaned missing_id_timestamps r none]
    by (simp add: example_world_def)
qed

lemmas main_defs = main_def main_after_read_def unique_def clean_def convert_dates_def
  to_datetime_def text_offsets_def aware_offsets_def all_same_def
  remove_erroneous_rows_def select_def isnull_def DataFrame_def Let_def

text \<open>
  Claim C4 at a failing input. The cleaned table has a row without device identifier and,
  after it, a row of device D1. The run prints its messages up to the list of devices and
  raises TypeError at the missing identifier: D1 is never visited (no progress message
  names it) and no Output Table is written.
\<close>

theorem main_stops_at_missing_device:
  "main missing_id_env example_world =
     (Inl TypeError,
      example_world
        \<lparr>stdout := [''Enter input file path: '', ''Enter output file path: '',
                    ''Data loaded! Removing Erroneous Rows...'', ''Erroneous rows removed!'',
                    ''Converting strings to dates... (This will take some time.)'',
                    ''Strings converted!'', ''Getting devices...'', ''Device list created.''],
         stdin := [], io_log := [ReadCsv ''in.csv'']\<rparr>)"
  by (simp add: main_defs path_defs example_defs)

text \<open>
  Claim C7 at a failing input. The input file can be read and the output file can be
  written, and still \<^verbatim>\<open>main\<close> returns neither True nor False: the row without device
  identifier makes it raise.
\<close>

theorem main_missing_device_no_boolean:
  "read_csv missing_id_env ''in.csv'' = Inr missing_id_table
   \<and> to_csv missing_id_env = (\<lambda>path df. None)
   \<and> fst (main missing_id_env example_world) \<noteq> Inr True
   \<and> fst (main missing_id_env example_world) \<noteq> Inr False"
  by (simp add: main_defs path_defs example_defs)

text \<open>
  Claim C8 at a failing input. With the flag set and the command line of the usage message
  (the script, the input path, the output path), \<^verbatim>\<open>main\<close> reports a usage error and
  returns False without reading \<^verbatim>\<open>in.csv\<close>. With one argument it takes the script itself
  (\<^verbatim>\<open>sys.argv[0]\<close>) as the input file and the argument as the output path.
\<close>

theorem main_rejects_documented_arguments:
  "main args_env example_world =
     (Inr False,
      example_world
        \<lparr>stderr := [''Incorrect usage: ./stratifiedRandomSampler.py csvFilePathInput csvFileOutput'']\<rparr>)
   \<and> main one_arg_env example_world =
     (Inr False,
      example_world
        \<lparr>stderr := [''Error when opening CSV File. See: Error tokenizing data''],
         io_log := [ReadCsv ''./stratifiedRandomSampler.py'']\<rparr>)"
  by (simp add: main_defs path_defs example_defs)



text \<open>
  Claim C2 at a failing input. The two start times of device D1 carry different UTC
  offsets. The Cleaner returns without exception, and the StartDateTime column of the
  cleaned table is an object column. Hour 5 (as every hour) has no eligible record, and
  \<^verbatim>\<open>pick_random_sample\<close> does not return \<^verbatim>\<open>(False, None)\<close>: line 43 raises AttributeError,
  before any message and any draw; the run of \<^verbatim>\<open>main\<close> over this table ends with this
  exception.
\<close>

theorem pick_random_sample_raises_on_mixed_offsets:
  "clean mixed_parse mixed_table = Inr mixed_cleaned
   \<and> filter (eligible ''D1'' 5) (rows mixed_cleaned) = []
   \<and> pick_random_sample mixed_cleaned ''D1'' example_world = (Inl AttributeError, example_world)
   \<and> fst (main mixed_env example_world) = Inl AttributeError"
proof -
  have a: "filter (eligible ''D1'' 5) (rows mixed_cleaned) = []"
    by code_simp
  have dt: "\<not> datetimelike mixed_cleaned"
    by code_simp
  have b: "pick_random_sample mixed_cleaned ''D1'' example_world = (Inl AttributeError, example_world)"
    using dt by (rule pick_random_sample_not_datetimelike)
  have c: "fst (main mixed_env example_world) = Inl AttributeError"
    by (simp add: main_defs path_defs sampler_defs example_defs)
  show ?thesis using mixed_clean a b c by simp
qed

text \<open>
  Claim C9 at a failing input. On the same table the Cleaner leaves an object column of
  datetime objects with two offsets; the Cleaner applied to this output does not give it
  back: the conversion raises ValueError.
\<close>

theorem clean_again_raises_on_mixed_offsets:
  "clean mixed_parse mixed_table = Inr mixed_cleaned
   \<and> clean mixed_parse mixed_cleaned = Inl ValueError"
proof -
  have "clean mixed_parse mixed_cleaned = Inl ValueError"
    by code_simp
  then show ?thesis using mixed_clean by simp
qed

end
